theory Spec2Isabelle
  imports Main "HOL-Library.Sublist"
begin

section \<open>JavaScript values used by lib/backends/sdc/networks.js\<close>

text \<open>
  The file is Node.js code in continuation-passing style. A callback \<open>cb(err, value)\<close> is
  modelled by the value the function hands to it; an exception that escapes (a failed
  \<open>assert\<close>, a property read on \<open>null\<close>) is a value of type \<open>exn\<close>. Strings are lists
  of characters, \<open>s.length\<close> is \<open>length s\<close>, \<open>s.substr(a)\<close> is \<open>drop a s\<close> and
  \<open>s.substr(0, n)\<close> is \<open>take n s\<close> (all indices here are non-negative).
\<close>

datatype exn = TypeError | AssertionError string

datatype 'a outcome = Thrown exn | Callback 'a

text \<open>An array read out of range gives \<open>undefined\<close>, which is \<open>===\<close> to no number.\<close>

definition nth_opt :: "'a list \<Rightarrow> nat \<Rightarrow> 'a option" where
  "nth_opt xs i = (if i < length xs then Some (xs ! i) else None)"

text \<open>A string (or a missing property) in a condition: only a non-empty string is truthy.\<close>

definition truthy :: "string option \<Rightarrow> bool" where
  "truthy s = (case s of None \<Rightarrow> False | Some v \<Rightarrow> v \<noteq> [])"

subsection \<open>\<open>Array.prototype.sort()\<close> without a comparator\<close>

text \<open>
  \<open>takenVlanIds = vlans.map(...).sort()\<close> passes no compare function, so the elements are
  ordered by their string conversions, compared code unit by code unit (a proper prefix
  comes first). VLAN ids are integers; \<open>toString\<close> gives their decimal numerals.
\<close>

function digits :: "nat \<Rightarrow> string" where
  "digits n =
     (if n < 10 then [''0123456789'' ! n]
      else digits (n div 10) @ [''0123456789'' ! (n mod 10)])"
  by pat_completeness auto
termination
  by (relation "measure (\<lambda>n. n)") auto

declare digits.simps [simp del]

definition toString :: "int \<Rightarrow> string" where
  "toString i = (if i < 0 then CHR ''-'' # digits (nat (- i)) else digits (nat i))"

fun js_string_lt :: "string \<Rightarrow> string \<Rightarrow> bool" where
  "js_string_lt [] [] = False"
| "js_string_lt [] (y # ys) = True"
| "js_string_lt (x # xs) [] = False"
| "js_string_lt (x # xs) (y # ys) =
     (if (of_char x :: nat) < of_char y then True
      else if (of_char y :: nat) < of_char x then False
      else js_string_lt xs ys)"

fun sort_insert :: "int \<Rightarrow> int list \<Rightarrow> int list" where
  "sort_insert x [] = [x]"
| "sort_insert x (y # ys) =
     (if js_string_lt (toString y) (toString x) then y # sort_insert x ys else x # y # ys)"

definition js_sort :: "int list \<Rightarrow> int list" where
  "js_sort xs = foldr sort_insert xs []"

section \<open>Errors\<close>

text \<open>
  An error of the NAPI client carries a message and, when it is an HTTP error, a status
  code. The constructors of \<open>error\<close> are the error classes of \<open>../../errors\<close> the file
  instantiates, \<open>errors.napiErrorWrap(err, msg)\<close>, a NAPI error passed on as it is, and
  the \<open>MultiError\<close> that \<open>vasync.parallel\<close> builds from the errors of its operations.
\<close>

record napi_err =
  message :: string
  statusCode :: "nat option"

datatype error =
    NapiError napi_err
  | NapiErrorWrap napi_err string
  | ValidationError string
  | DockerError string
  | AmbiguousDockerNetworkIdPrefixError string
  | NetworkNotFoundError string
  | MultiError "error list"

datatype level = Debug | Info | Warn | Err

type_synonym log_entry = "level \<times> string \<times> error option"

section \<open>The free VLAN id scan of \<open>createNetwork\<close>\<close>

text \<open>
  The loop of \<open>findFreeFabricVlanId\<close> (lines 663 to 683):
  \<^verbatim>\<open>
    var freeVlanIds = []; var id = -1; var takenIdx = 0;
    while (id < 1024 && freeVlanIds.length < 10) {
        id += 1;
        if (id === 1) { continue; }
        if (id === takenVlanIds[takenIdx]) {
            takenIdx += 1;
            while (id === takenVlanIds[takenIdx]) {
                assert.ok(takenIdx < 1024, 'takenIdx < 1024');
                takenIdx += 1;
            }
            continue;
        }
        freeVlanIds.push(id);
    }
  \<close>
  \<open>skipDuplicates\<close> is the inner loop, \<open>scanFreeVlanIds\<close> the outer one; the state of
  the loop (\<open>id\<close>, \<open>takenIdx\<close>, \<open>freeVlanIds\<close>) is passed along.
\<close>

function skipDuplicates :: "int list \<Rightarrow> int \<Rightarrow> nat \<Rightarrow> exn + nat" where
  "skipDuplicates takenVlanIds vid takenIdx =
     (if nth_opt takenVlanIds takenIdx = Some vid then
        (if takenIdx < 1024 then skipDuplicates takenVlanIds vid (takenIdx + 1)
         else Inl (AssertionError ''takenIdx < 1024''))
      else Inr takenIdx)"
  by pat_completeness auto
termination
  by (relation "measure (\<lambda>(t, v, k). length t - k)")
     (auto simp: nth_opt_def split: if_splits)

declare skipDuplicates.simps [simp del]

function scanFreeVlanIds :: "int list \<Rightarrow> int \<Rightarrow> nat \<Rightarrow> int list \<Rightarrow> exn + int list" where
  "scanFreeVlanIds takenVlanIds vid takenIdx freeVlanIds =
     (if vid < 1024 \<and> length freeVlanIds < 10 then
        (if vid + 1 = 1 then scanFreeVlanIds takenVlanIds (vid + 1) takenIdx freeVlanIds
         else if nth_opt takenVlanIds takenIdx = Some (vid + 1) then
           (case skipDuplicates takenVlanIds (vid + 1) (takenIdx + 1) of
              Inl e \<Rightarrow> Inl e
            | Inr takenIdx' \<Rightarrow> scanFreeVlanIds takenVlanIds (vid + 1) takenIdx' freeVlanIds)
         else scanFreeVlanIds takenVlanIds (vid + 1) takenIdx (freeVlanIds @ [vid + 1]))
      else Inr freeVlanIds)"
  by pat_completeness auto
termination
  by (relation "measure (\<lambda>(t, v, k, f). nat (1024 - v))") auto

declare scanFreeVlanIds.simps [simp del]

record vlan =
  vlan_id :: int
  vlan_name :: string

definition findFreeVlanIds :: "vlan list \<Rightarrow> exn + int list" where
  "findFreeVlanIds vlans = scanFreeVlanIds (js_sort (map vlan_id vlans)) (- 1) 0 []"

section \<open>The NAPI client and the helpers of \<open>./utils\<close>\<close>

text \<open>
  The remote service is reached through the methods of the \<open>sdc-clients\<close> NAPI object
  only. Each method calls back with an error or with a value (\<open>Inl\<close> the error); a run
  calls each method at most once per argument, so the service is a record of answers.
  A network and a network pool are both read through \<open>uuid\<close> and \<open>name\<close> here.
\<close>

record params =
  p_name :: "string option"
  p_uuid :: "string option"
  provisionable_by :: string

record network =
  net_uuid :: string
  net_name :: string

record net_params =
  np_name :: string
  provision_start_ip :: string
  provision_end_ip :: string
  np_subnet :: string
  np_vlan_id :: int

record napi =
  napi_listNetworks :: "params \<Rightarrow> napi_err + network list"
  napi_listNetworkPools :: "params \<Rightarrow> napi_err + network list"
  napi_getFabricVLAN :: "string \<Rightarrow> int \<Rightarrow> napi_err + vlan"
  napi_listFabricVLANs :: "string \<Rightarrow> napi_err + vlan list"
  napi_createFabricVLAN :: "string \<Rightarrow> int \<Rightarrow> napi_err + vlan"
  napi_createFabricNetwork :: "string \<Rightarrow> int \<Rightarrow> net_params \<Rightarrow> napi_err + network"
  napi_deleteFabricNetwork :: "string \<Rightarrow> int \<Rightarrow> string \<Rightarrow> napi_err option"
  napi_deleteFabricVLAN :: "string \<Rightarrow> int \<Rightarrow> napi_err option"

text \<open>
  \<open>./utils\<close> is not among the sources: its three functions used here are parameters.
  So are \<open>Number\<close> on the label's string (\<open>None\<close> is \<open>NaN\<close>; a VLAN id is an integer)
  and \<open>ip6addr.createCIDR\<close>, which throws (\<open>None\<close>) or gives the first and the last
  address of the range.
\<close>

record utils =
  shortNetworkIdToUuidPrefix :: "string \<Rightarrow> string"
  ldapEscape :: "string \<Rightarrow> string"
  networkUuidToDockerId :: "string \<Rightarrow> string"
  toNumber :: "string \<Rightarrow> int option"
  createCIDR :: "string \<Rightarrow> (string \<times> string) option"

section \<open>The control flow of \<open>vasync\<close>\<close>

text \<open>
  \<open>vasync.tryEach(funcs, callback)\<close> runs the functions in order until one calls back
  without an error, and hands \<open>callback\<close> the arguments of that one, or of the last
  function when all fail. A function's completion is \<open>TryFail\<close> (it called \<open>cb(err)\<close>),
  \<open>TryOk v\<close> (it called \<open>cb(null, v)\<close>) or \<open>TryThrow\<close>. The list of functions of
  \<open>getNetworksOrPools\<close> is not empty: \<open>tryEach\<close> takes the first one apart.
\<close>

datatype 'a try_cb = TryThrow exn | TryFail string | TryOk 'a

fun tryEach :: "'a try_cb \<Rightarrow> 'a try_cb list \<Rightarrow> 'a try_cb" where
  "tryEach f [] = f"
| "tryEach f (g # gs) = (case f of TryFail m \<Rightarrow> tryEach g gs | TryThrow x \<Rightarrow> f | TryOk v \<Rightarrow> f)"

text \<open>
  \<open>vasync.pipeline\<close> runs its stages in order on the shared state and stops at the first
  stage that calls \<open>next(err)\<close>; \<open>vasync.forEachPipeline\<close> does the same with one
  function over a list of inputs. A stage either throws or calls \<open>next\<close>.
\<close>

datatype 'e step = Throw exn | Next "'e option"

fun pipeline :: "('s \<Rightarrow> 'e step \<times> 's) list \<Rightarrow> 's \<Rightarrow> 'e step \<times> 's" where
  "pipeline [] st = (Next None, st)"
| "pipeline (f # fs) st =
     (case f st of
        (Next None, st') \<Rightarrow> pipeline fs st'
      | (Next (Some e), st') \<Rightarrow> (Next (Some e), st')
      | (Throw x, st') \<Rightarrow> (Throw x, st'))"

fun forEachPipeline :: "('i \<Rightarrow> 's \<Rightarrow> 'e option \<times> 's) \<Rightarrow> 'i list \<Rightarrow> 's \<Rightarrow> 'e option \<times> 's" where
  "forEachPipeline func [] st = (None, st)"
| "forEachPipeline func (x # xs) st =
     (case func x st of
        (None, st') \<Rightarrow> forEachPipeline func xs st'
      | (Some e, st') \<Rightarrow> (Some e, st'))"

text \<open>
  \<open>vasync.parallel\<close> records for each function, in the order of \<open>funcs\<close>, the error and
  the result it called back with (\<open>results.operations\<close>), and passes as \<open>err\<close> a
  \<open>MultiError\<close> of the errors when there is one.
\<close>

record op =
  op_err :: "error option"
  op_result :: "network list"

definition parallel_err :: "op list \<Rightarrow> error option" where
  "parallel_err operations =
     (case List.map_filter op_err operations of [] \<Rightarrow> None | e # es \<Rightarrow> Some (MultiError (e # es)))"

section \<open>\<open>getNetworksOrPools\<close>\<close>

text \<open>
  The functions given to \<open>tryEach\<close> call back with \<open>{err: err}\<close> or \<open>{res: res}\<close>
  (\<open>WErr\<close>, \<open>WRes\<close>). \<open>listNets\<close> and \<open>listNetPools\<close> have the same body but for the
  client method, and so have \<open>listFiltNets\<close> and \<open>listFiltNetPools\<close> (and the message
  of the last failure): \<open>listDirect\<close> and \<open>listFiltered\<close> are these bodies. On an error
  the client's \<open>res\<close> is \<open>null\<close>, so \<open>res.filter\<close> in \<open>listFiltered\<close> throws when the
  error is a 404.
\<close>

datatype wrapped = WErr napi_err | WRes "network list"

definition listDirect :: "(params \<Rightarrow> napi_err + network list) \<Rightarrow> params \<Rightarrow> wrapped try_cb" where
  "listDirect method ps =
     (case method ps of
        Inr res \<Rightarrow> if res = [] then TryFail ''Empty List'' else TryOk (WRes res)
      | Inl err \<Rightarrow> if statusCode err \<noteq> Some 404 then TryOk (WErr err) else TryFail (message err))"

definition listFiltered ::
  "(params \<Rightarrow> napi_err + network list) \<Rightarrow> string \<Rightarrow> params \<Rightarrow> wrapped try_cb" where
  "listFiltered method notFound ps =
     (if truthy (p_name ps) then TryFail ''Net name not found''
      else case p_uuid ps of
        None \<Rightarrow> TryThrow TypeError
      | Some uuid \<Rightarrow>
          (let uuidPref = take (length uuid - 1) uuid;
               sz = length uuidPref
           in if nth_opt uuid (length uuid - 1) \<noteq> Some CHR ''*'' then TryFail ''Must be prefix''
              else case method \<lparr>p_name = None, p_uuid = None,
                                 provisionable_by = provisionable_by ps\<rparr> of
                Inr res \<Rightarrow>
                  if res = [] then TryFail ''Empty List''
                  else (let filtered = filter (\<lambda>p. uuidPref = take sz (net_uuid p)) res
                        in if length filtered > 0 then TryOk (WRes filtered)
                           else TryFail notFound)
              | Inl err \<Rightarrow>
                  if statusCode err \<noteq> Some 404 then TryOk (WErr err) else TryThrow TypeError))"

definition listNets :: "napi \<Rightarrow> params \<Rightarrow> wrapped try_cb" where
  "listNets napi ps = listDirect (napi_listNetworks napi) ps"

definition listFiltNets :: "napi \<Rightarrow> params \<Rightarrow> wrapped try_cb" where
  "listFiltNets napi ps = listFiltered (napi_listNetworks napi) ''Network not found'' ps"

definition listNetPools :: "napi \<Rightarrow> params \<Rightarrow> wrapped try_cb" where
  "listNetPools napi ps = listDirect (napi_listNetworkPools napi) ps"

definition listFiltNetPools :: "napi \<Rightarrow> params \<Rightarrow> wrapped try_cb" where
  "listFiltNetPools napi ps =
     listFiltered (napi_listNetworkPools napi) ''Network pool not found'' ps"

definition final :: "wrapped try_cb" where
  "final = TryOk (WRes [])"

text \<open>The four searches, in the order of the array given to \<open>tryEach\<close>.\<close>

definition strategies :: "napi \<Rightarrow> params \<Rightarrow> wrapped try_cb list" where
  "strategies napi ps =
     [listNets napi ps, listFiltNets napi ps, listNetPools napi ps, listFiltNetPools napi ps]"

definition getNetworksOrPools :: "napi \<Rightarrow> params \<Rightarrow> (napi_err + network list) outcome" where
  "getNetworksOrPools napi ps =
     (if \<not> (truthy (p_name ps) \<or> truthy (p_uuid ps))
      then Thrown (AssertionError ''params name or uuid'')
      else case tryEach (listNets napi ps)
                  [listFiltNets napi ps, listNetPools napi ps, listFiltNetPools napi ps, final] of
        TryThrow x \<Rightarrow> Thrown x
      | TryFail m \<Rightarrow> Thrown TypeError
      | TryOk (WErr err) \<Rightarrow> Callback (Inl err)
      | TryOk (WRes res) \<Rightarrow> Callback (Inr res))"

section \<open>\<open>findNetworkOrPoolByNameOrId\<close>\<close>

text \<open>
  The three searches given to \<open>vasync.parallel\<close>. Each gives what it calls back with (or
  the exception of \<open>getNetworksOrPools\<close>) and what it logs. \<open>byExactId\<close> and
  \<open>byDockerId\<close> call back with an empty array, without a search, on an id that cannot be
  one of this system's.
\<close>

definition byExactId ::
  "utils \<Rightarrow> napi \<Rightarrow> string \<Rightarrow> string \<Rightarrow> (napi_err + network list) outcome \<times> log_entry list" where
  "byExactId utils napi name account =
     (if take 32 name \<noteq> drop 32 name
      then (Callback (Inr []), [(Debug, ''Networks: impossible exactId: %s, skipping'', None)])
      else (let uuid = shortNetworkIdToUuidPrefix utils name;
                listParams = \<lparr>p_name = None, p_uuid = Some (ldapEscape utils uuid),
                              provisionable_by = account\<rparr>
            in (getNetworksOrPools napi listParams, [])))"

definition byName ::
  "napi \<Rightarrow> string \<Rightarrow> string \<Rightarrow> (napi_err + network list) outcome \<times> log_entry list" where
  "byName napi name account =
     (let listParams = \<lparr>p_name = Some name, p_uuid = None, provisionable_by = account\<rparr>
      in (getNetworksOrPools napi listParams,
          [(Debug, ''Networks: searching for network %s'', None)]))"

definition byDockerId ::
  "utils \<Rightarrow> napi \<Rightarrow> string \<Rightarrow> string \<Rightarrow> (napi_err + network list) outcome \<times> log_entry list" where
  "byDockerId utils napi name account =
     (if length name \<ge> 32 \<and>
         (let secondHalf = drop 32 name;
              firstHalf = take 31 name
          in length secondHalf \<ge> length firstHalf
             \<or> secondHalf \<noteq> take (length secondHalf) firstHalf)
      then (Callback (Inr []), [(Info, ''Networks: impossible network id %s, skipping'', None)])
      else (let uuidSearchStr = ldapEscape utils (shortNetworkIdToUuidPrefix utils name) @ ''*'';
                listParams = \<lparr>p_name = None, p_uuid = Some uuidSearchStr,
                              provisionable_by = account\<rparr>
            in (getNetworksOrPools napi listParams,
                [(Debug, ''Networks: searching for network %s'', None)])))"

text \<open>
  \<open>_listedNetworks\<close>, the callback of \<open>vasync.parallel\<close>: \<open>bestMatchStep\<close> is the function
  given to \<open>results.operations.reduce\<close>, started from \<open>{ err: null, result: null }\<close>.
  The result is what \<open>callback\<close> receives and what is logged.
\<close>

record acc =
  acc_err :: "error option"
  acc_result :: "network option"

definition bestMatchStep :: "string \<Rightarrow> acc \<Rightarrow> op \<Rightarrow> acc" where
  "bestMatchStep name acc op =
     (if acc_err acc \<noteq> None \<or> acc_result acc \<noteq> None then acc
      else case op_err op of
        Some e \<Rightarrow> acc\<lparr>acc_err := Some e\<rparr>
      | None \<Rightarrow>
          (case op_result op of
             [] \<Rightarrow> acc
           | [net] \<Rightarrow> acc\<lparr>acc_result := Some net\<rparr>
           | _ \<Rightarrow> acc\<lparr>acc_err := Some (AmbiguousDockerNetworkIdPrefixError name)\<rparr>))"

definition listedNetworks ::
  "string \<Rightarrow> error option \<Rightarrow> op list \<Rightarrow> (error + network) \<times> log_entry list" where
  "listedNetworks name err operations =
     (let bestMatch = foldl (bestMatchStep name) \<lparr>acc_err = None, acc_result = None\<rparr> operations
      in case acc_err bestMatch of
        Some e \<Rightarrow> (Inl e, [(Err, ''Networks: Error finding network to match %s'', Some e)])
      | None \<Rightarrow>
          (case acc_result bestMatch of
             None \<Rightarrow> (Inl (NetworkNotFoundError name),
                       [(Info, ''Networks: no results for name %s'', None)])
           | Some net \<Rightarrow>
               (Inr net,
                (case err of
                   Some e \<Rightarrow> [(Warn, ''Networks: non-critical error searching NAPI'', Some e)]
                 | None \<Rightarrow> [])
                @ [(Debug, ''Networks: chose %s/%s'', None)])))"

text \<open>
  \<open>vasync.parallel\<close> on the three searches, then \<open>_listedNetworks\<close> on its results.
  \<open>resolve operations\<close> is the second half alone: the outcome for given completions
  of the three searches.
\<close>

definition to_op :: "napi_err + network list \<Rightarrow> op" where
  "to_op r =
     (case r of
        Inl e \<Rightarrow> \<lparr>op_err = Some (NapiError e), op_result = []\<rparr>
      | Inr res \<Rightarrow> \<lparr>op_err = None, op_result = res\<rparr>)"

fun operations_of :: "(napi_err + network list) outcome list \<Rightarrow> exn + op list" where
  "operations_of [] = Inr []"
| "operations_of (Thrown x # rs) = Inl x"
| "operations_of (Callback r # rs) =
     (case operations_of rs of Inl x \<Rightarrow> Inl x | Inr ops \<Rightarrow> Inr (to_op r # ops))"

definition resolve :: "string \<Rightarrow> op list \<Rightarrow> (error + network) \<times> log_entry list" where
  "resolve name operations = listedNetworks name (parallel_err operations) operations"

definition findNetworkOrPoolByNameOrId ::
  "utils \<Rightarrow> napi \<Rightarrow> string \<Rightarrow> string \<Rightarrow> (error + network) outcome \<times> log_entry list" where
  "findNetworkOrPoolByNameOrId utils napi name account =
     (let funcs = [byExactId utils napi name account, byName napi name account,
                   byDockerId utils napi name account]
      in case operations_of (map fst funcs) of
        Inl x \<Rightarrow> (Thrown x, concat (map snd funcs))
      | Inr operations \<Rightarrow>
          (let (r, l) = resolve name operations
           in (Callback r, concat (map snd funcs) @ l)))"

section \<open>\<open>createNetwork\<close>\<close>

text \<open>
  The request: the account, \<open>payload.Labels && payload.Labels['triton.network.vlan_id']\<close>
  (absent or falsy, a truthy value that is not a string, or a string), \<open>payload.Name\<close> and
  \<open>payload.IPAM.Config[0]\<close>. The state of one call: \<open>ctx\<close>, the variable
  \<open>createdFabricVlan\<close>, and what the call has sent to NAPI and logged so far.
\<close>

datatype label = Absent | NotAString | Str string

record request =
  account_uuid :: string
  vlanIdStr :: label
  payload_Name :: string
  ipam_Subnet :: string
  ipam_IPRange :: "string option"

datatype call =
    GetFabricVLAN string int
  | ListFabricVLANs string
  | CreateFabricVLAN string int
  | CreateFabricNetwork string int net_params
  | DeleteFabricNetwork string "int option" string
  | DeleteFabricVLAN string "int option"

record state =
  fabricVlanId :: "int option"
  fabricVlan :: "vlan option"
  freeVlanIds :: "int list option"
  fabricNetwork :: "network option"
  createdFabricVlan :: bool
  calls :: "call list"
  logs :: "log_entry list"

definition initial :: state where
  "initial = \<lparr>fabricVlanId = None, fabricVlan = None, freeVlanIds = None,
              fabricNetwork = None, createdFabricVlan = False, calls = [], logs = []\<rparr>"

definition lookupExistingFabricVlan ::
  "napi \<Rightarrow> request \<Rightarrow> int option \<Rightarrow> state \<Rightarrow> error step \<times> state" where
  "lookupExistingFabricVlan napi req vlanId st =
     (case vlanId of
        None \<Rightarrow> (Next None, st)
      | Some v \<Rightarrow>
          (let st1 = st\<lparr>calls := calls st @ [GetFabricVLAN (account_uuid req) v]\<rparr>
           in case napi_getFabricVLAN napi (account_uuid req) v of
             Inl err \<Rightarrow>
               (Next (Some (NapiErrorWrap err ''Unable to find fabric vlan'')),
                st1\<lparr>logs := logs st1 @ [(Warn, ''napi getFabricVLAN error: %s'',
                                           Some (NapiError err))]\<rparr>)
           | Inr vlan \<Rightarrow> (Next None, st1\<lparr>fabricVlanId := Some v, fabricVlan := Some vlan\<rparr>)))"

definition findFreeFabricVlanId :: "napi \<Rightarrow> request \<Rightarrow> state \<Rightarrow> error step \<times> state" where
  "findFreeFabricVlanId napi req st =
     (if fabricVlan st \<noteq> None then (Next None, st)
      else (let st1 = st\<lparr>calls := calls st @ [ListFabricVLANs (account_uuid req)],
                         logs := logs st @ [(Debug, ''vlans: %j'', None)]\<rparr>
            in case napi_listFabricVLANs napi (account_uuid req) of
              Inl err \<Rightarrow> (Next (Some (NapiErrorWrap err ''Unable to list fabric vlans'')), st1)
            | Inr vlans \<Rightarrow>
                if length vlans \<ge> 1024 then (Next (Some (DockerError ''No free vlan ids'')), st1)
                else (case findFreeVlanIds vlans of
                        Inl x \<Rightarrow> (Throw x, st1)
                      | Inr ids \<Rightarrow>
                          (Next None,
                           st1\<lparr>freeVlanIds := Some ids,
                               logs := logs st1 @ [(Debug, ''freeVlanIds: %j'', None)]\<rparr>))))"

text \<open>
  The function of \<open>forEachPipeline\<close> in \<open>createFabricVlan\<close> calls \<open>nextId(true)\<close> on
  success (\<open>AbortMarker\<close>), \<open>nextId()\<close> on the conflict and \<open>nextId(err)\<close> otherwise.
\<close>

datatype loop_err = AbortMarker | LoopError error

definition tryCreateVlan :: "napi \<Rightarrow> request \<Rightarrow> int \<Rightarrow> state \<Rightarrow> loop_err option \<times> state" where
  "tryCreateVlan napi req vid st =
     (let st1 = st\<lparr>calls := calls st @ [CreateFabricVLAN (account_uuid req) vid]\<rparr>
      in case napi_createFabricVLAN napi (account_uuid req) vid of
        Inr result \<Rightarrow>
          (Some AbortMarker,
           st1\<lparr>fabricVlanId := Some vid, fabricVlan := Some result, createdFabricVlan := True\<rparr>)
      | Inl err \<Rightarrow>
          if message err = ''VLAN ID is already in use'' then (None, st1)
          else (Some (LoopError (NapiErrorWrap err ''Unable to create fabric vlan'')), st1))"

definition createFabricVlan :: "napi \<Rightarrow> request \<Rightarrow> state \<Rightarrow> error step \<times> state" where
  "createFabricVlan napi req st =
     (if fabricVlan st \<noteq> None then (Next None, st)
      else case freeVlanIds st of
        None \<Rightarrow> (Throw (AssertionError ''ctx.freeVlanIds''), st)
      | Some ids \<Rightarrow>
          if \<not> length ids > 0 then (Throw (AssertionError ''ctx.freeVlanIds.length > 0''), st)
          else (case forEachPipeline (tryCreateVlan napi req) ids st of
                  (Some AbortMarker, st') \<Rightarrow> (Next None, st')
                | (Some (LoopError e), st') \<Rightarrow> (Next (Some e), st')
                | (None, st') \<Rightarrow>
                    if \<not> createdFabricVlan st'
                    then (Next (Some (DockerError ''No available VLAN for network creation'')), st')
                    else (Next None, st')))"

definition createFabricNetwork ::
  "utils \<Rightarrow> napi \<Rightarrow> request \<Rightarrow> state \<Rightarrow> error step \<times> state" where
  "createFabricNetwork utils napi req st =
     (case fabricVlanId st of
        None \<Rightarrow> (Throw (AssertionError ''ctx.fabricVlanId''), st)
      | Some vid \<Rightarrow>
          (let subnet = ipam_Subnet req
           in case createCIDR utils (if truthy (ipam_IPRange req) then the (ipam_IPRange req)
                                     else subnet) of
             None \<Rightarrow> (Next (Some (ValidationError ''Invalid Subnet or IPRange'')), st)
           | Some (firstIp, lastIp) \<Rightarrow>
               (let ps = \<lparr>np_name = payload_Name req, provision_start_ip = firstIp,
                          provision_end_ip = lastIp, np_subnet = subnet, np_vlan_id = vid\<rparr>;
                    st1 = st\<lparr>calls := calls st @ [CreateFabricNetwork (account_uuid req) vid ps],
                             logs := logs st @ [(Debug, ''creating fabric network'', None)]\<rparr>
                in case napi_createFabricNetwork napi (account_uuid req) vid ps of
                  Inl err \<Rightarrow> (Next (Some (NapiErrorWrap err ''Unable to create network'')), st1)
                | Inr result \<Rightarrow> (Next None, st1\<lparr>fabricNetwork := Some result\<rparr>))))"

text \<open>
  The cleanup of the final callback. \<open>vasync.parallel\<close> starts \<open>removeFabricNetwork\<close>, then
  \<open>removeFabricVLAN\<close>, and calls \<open>onCleanup\<close> when both are done; \<open>onCleanup\<close> takes no
  argument.
\<close>

definition removeFabricNetwork :: "napi \<Rightarrow> request \<Rightarrow> state \<Rightarrow> state" where
  "removeFabricNetwork napi req st =
     (case fabricNetwork st of
        None \<Rightarrow> st
      | Some net \<Rightarrow>
          (let st1 = st\<lparr>calls := calls st @
                         [DeleteFabricNetwork (account_uuid req) (fabricVlanId st) (net_uuid net)]\<rparr>
           in case fabricVlanId st of
             None \<Rightarrow> st1
           | Some vid \<Rightarrow>
               (case napi_deleteFabricNetwork napi (account_uuid req) vid (net_uuid net) of
                  None \<Rightarrow> st1
                | Some dErr \<Rightarrow>
                    st1\<lparr>logs := logs st1 @
                          [(Warn, ''Unable to delete newly created fabric network'',
                            Some (NapiError dErr))]\<rparr>)))"

definition removeFabricVLAN :: "napi \<Rightarrow> request \<Rightarrow> state \<Rightarrow> state" where
  "removeFabricVLAN napi req st =
     (if \<not> createdFabricVlan st then st
      else (let st1 = st\<lparr>calls := calls st @
                           [DeleteFabricVLAN (account_uuid req) (fabricVlanId st)]\<rparr>
            in case fabricVlanId st of
              None \<Rightarrow> st1
            | Some vid \<Rightarrow>
                (case napi_deleteFabricVLAN napi (account_uuid req) vid of
                   None \<Rightarrow> st1
                 | Some dErr \<Rightarrow>
                     st1\<lparr>logs := logs st1 @
                           [(Warn, ''Unable to delete newly created fabric vlan'',
                             Some (NapiError dErr))]\<rparr>)))"

text \<open>
  \<open>stages\<close> is the array given to \<open>vasync.pipeline\<close>; \<open>finish\<close> is its callback;
  \<open>createNetwork\<close> checks the label first.
\<close>

definition stages ::
  "utils \<Rightarrow> napi \<Rightarrow> request \<Rightarrow> int option \<Rightarrow> (state \<Rightarrow> error step \<times> state) list" where
  "stages utils napi req vlanId =
     [lookupExistingFabricVlan napi req vlanId, findFreeFabricVlanId napi req,
      createFabricVlan napi req, createFabricNetwork utils napi req]"

definition finish ::
  "utils \<Rightarrow> napi \<Rightarrow> request \<Rightarrow> error step \<times> state \<Rightarrow> (error + string) outcome \<times> state" where
  "finish utils napi req r =
     (case r of
        (Throw x, st) \<Rightarrow> (Thrown x, st)
      | (Next None, st) \<Rightarrow>
          (case fabricNetwork st of
             None \<Rightarrow> (Thrown TypeError, st)
           | Some net \<Rightarrow> (Callback (Inr (networkUuidToDockerId utils (net_uuid net))), st))
      | (Next (Some err), st) \<Rightarrow>
          (let st1 = st\<lparr>logs := logs st @ [(Err, ''Unable to create docker network, err: %s'',
                                             Some err)]\<rparr>
           in (Callback (Inl err), removeFabricVLAN napi req (removeFabricNetwork napi req st1))))"

definition checkVlanLabel :: "utils \<Rightarrow> request \<Rightarrow> error + int option" where
  "checkVlanLabel utils req =
     (case vlanIdStr req of
        Absent \<Rightarrow> Inr None
      | NotAString \<Rightarrow>
          Inl (ValidationError ''Label value for triton.network.vlan_id must be a string'')
      | Str s \<Rightarrow>
          if s = [] then Inr None
          else (case toNumber utils s of
                  None \<Rightarrow> Inl (ValidationError (''Invalid value for triton.network.vlan_id: '' @ s))
                | Some vlanId \<Rightarrow>
                    if vlanId = 1 \<or> vlanId < 0
                    then Inl (ValidationError (''Invalid value for triton.network.vlan_id: '' @ s))
                    else Inr (Some vlanId)))"

definition createNetwork ::
  "utils \<Rightarrow> napi \<Rightarrow> request \<Rightarrow> (error + string) outcome \<times> state" where
  "createNetwork utils napi req =
     (case checkVlanLabel utils req of
        Inl e \<Rightarrow> (Callback (Inl e), initial)
      | Inr vlanId \<Rightarrow> finish utils napi req (pipeline (stages utils napi req vlanId) initial))"

text \<open>
  What a run did, read from its calls: the VLANs and the networks it created (the
  creation calls NAPI answered without an error), the deletions it sent, and the VLAN ids
  it tried.
\<close>

fun createdVlans :: "napi \<Rightarrow> call list \<Rightarrow> (string \<times> int) list" where
  "createdVlans napi [] = []"
| "createdVlans napi (CreateFabricVLAN a v # cs) =
     (case napi_createFabricVLAN napi a v of
        Inr vl \<Rightarrow> (a, v) # createdVlans napi cs
      | Inl err \<Rightarrow> createdVlans napi cs)"
| "createdVlans napi (c # cs) = createdVlans napi cs"

fun createdNetworks :: "napi \<Rightarrow> call list \<Rightarrow> (string \<times> int \<times> string) list" where
  "createdNetworks napi [] = []"
| "createdNetworks napi (CreateFabricNetwork a v ps # cs) =
     (case napi_createFabricNetwork napi a v ps of
        Inr net \<Rightarrow> (a, v, net_uuid net) # createdNetworks napi cs
      | Inl err \<Rightarrow> createdNetworks napi cs)"
| "createdNetworks napi (c # cs) = createdNetworks napi cs"

fun vlanDeletions :: "call list \<Rightarrow> (string \<times> int option) list" where
  "vlanDeletions [] = []"
| "vlanDeletions (DeleteFabricVLAN a v # cs) = (a, v) # vlanDeletions cs"
| "vlanDeletions (c # cs) = vlanDeletions cs"

fun networkDeletions :: "call list \<Rightarrow> (string \<times> int option \<times> string) list" where
  "networkDeletions [] = []"
| "networkDeletions (DeleteFabricNetwork a v u # cs) = (a, v, u) # networkDeletions cs"
| "networkDeletions (c # cs) = networkDeletions cs"

fun vlanCreations :: "call list \<Rightarrow> int list" where
  "vlanCreations [] = []"
| "vlanCreations (CreateFabricVLAN a v # cs) = v # vlanCreations cs"
| "vlanCreations (c # cs) = vlanCreations cs"

text \<open>The conflict of \<open>createFabricVLAN\<close> that the loop takes as a sign to go on.\<close>

definition conflict :: "napi \<Rightarrow> request \<Rightarrow> int \<Rightarrow> bool" where
  "conflict napi req v =
     (case napi_createFabricVLAN napi (account_uuid req) v of
        Inl err \<Rightarrow> message err = ''VLAN ID is already in use''
      | Inr vl \<Rightarrow> False)"

section \<open>A measure for the scan\<close>

text \<open>
  The ids the outer loop has still to visit, the reserved id 1 left out: each of them is
  pushed unless it uses up an entry of \<open>takenVlanIds\<close>. The loop visits the ids up to 1024.
\<close>

definition remaining :: "int \<Rightarrow> int" where
  "remaining v = (if v < 1 then 1023 - v else 1024 - v)"

section \<open>An invariant of the pipeline\<close>

text \<open>
  What holds of the state as long as no stage has created the network: no network exists,
  nothing has been deleted, and \<open>createdFabricVlan\<close> says whether the calls so far created a
  VLAN, which then is \<open>ctx.fabricVlanId\<close>. \<open>Inv2\<close> adds that a VLAN found for the label
  is in \<open>ctx.fabricVlan\<close> and that none was created beside it.
\<close>

definition Inv :: "napi \<Rightarrow> request \<Rightarrow> state \<Rightarrow> bool" where
  "Inv napi req st =
     (fabricNetwork st = None \<and> createdNetworks napi (calls st) = []
      \<and> networkDeletions (calls st) = [] \<and> vlanDeletions (calls st) = []
      \<and> createdVlans napi (calls st) =
          (if createdFabricVlan st then
             (case fabricVlanId st of None \<Rightarrow> [] | Some v \<Rightarrow> [(account_uuid req, v)])
           else [])
      \<and> (if createdFabricVlan st then fabricVlanId st \<noteq> None \<and> fabricVlan st \<noteq> None else True))"

definition Inv2 :: "napi \<Rightarrow> request \<Rightarrow> int option \<Rightarrow> state \<Rightarrow> bool" where
  "Inv2 napi req vlanId st =
     (Inv napi req st \<and>
      (case vlanId of
         None \<Rightarrow> True
       | Some v \<Rightarrow>
           (case napi_getFabricVLAN napi (account_uuid req) v of
              Inl err \<Rightarrow> True
            | Inr vl \<Rightarrow> fabricVlan st \<noteq> None \<and> \<not> createdFabricVlan st)))"

section \<open>Searches that degrade to "not found"\<close>

text \<open>
  A search of \<open>getNetworksOrPools\<close> degrades when it calls back with an error, so that
  \<open>tryEach\<close> goes on: an empty list, a 404 of a direct listing, a filter that is not a
  prefix filter, or no network left by the prefix filter.
\<close>

definition degraded :: "wrapped try_cb \<Rightarrow> bool" where
  "degraded s = (case s of TryFail m \<Rightarrow> True | TryThrow x \<Rightarrow> False | TryOk v \<Rightarrow> False)"

section \<open>Example inputs\<close>

text \<open>An account whose VLANs have the ids 0, 2, 3 and 1023, in the order NAPI lists them.\<close>

definition takenExample :: "vlan list" where
  "takenExample =
     [\<lparr>vlan_id = 0, vlan_name = ''a''\<rparr>, \<lparr>vlan_id = 2, vlan_name = ''b''\<rparr>,
      \<lparr>vlan_id = 3, vlan_name = ''c''\<rparr>, \<lparr>vlan_id = 1023, vlan_name = ''d''\<rparr>]"

text \<open>
  The first 63 characters of the docker id of the network with the uuid
  \<open>01234567-89ab-cdef-0123-456789abcdef\<close>.
\<close>

definition id63 :: string where
  "id63 = ''0123456789abcdef0123456789abcdef0123456789abcdef0123456789abcde''"

text \<open>
  A provisioning run: the account has the VLANs 0, 2 and 3; id 4 is taken by somebody else
  by the time the VLAN is created, id 5 is not; creating the network fails, and so does
  deleting the VLAN. The helpers of \<open>./utils\<close> are stand-ins.
\<close>

definition e500 :: napi_err where
  "e500 = \<lparr>message = ''Internal error'', statusCode = Some 500\<rparr>"

definition inUse :: napi_err where
  "inUse = \<lparr>message = ''VLAN ID is already in use'', statusCode = Some 422\<rparr>"

definition notFound :: napi_err where
  "notFound = \<lparr>message = ''not found'', statusCode = Some 404\<rparr>"

definition utilsExample :: utils where
  "utilsExample =
     \<lparr>shortNetworkIdToUuidPrefix = take 32, ldapEscape = (\<lambda>s. s),
      networkUuidToDockerId = (\<lambda>u. u @ u), toNumber = (\<lambda>s. None),
      createCIDR = (\<lambda>s. Some (''10.0.0.1'', ''10.0.0.254''))\<rparr>"

definition reqExample :: request where
  "reqExample =
     \<lparr>account_uuid = ''acct'', vlanIdStr = Absent, payload_Name = ''web'',
      ipam_Subnet = ''10.0.0.0/24'', ipam_IPRange = None\<rparr>"

definition vlansExample :: "vlan list" where
  "vlansExample =
     [\<lparr>vlan_id = 0, vlan_name = ''a''\<rparr>, \<lparr>vlan_id = 2, vlan_name = ''b''\<rparr>,
      \<lparr>vlan_id = 3, vlan_name = ''c''\<rparr>]"

definition napiProvision :: napi where
  "napiProvision =
     \<lparr>napi_listNetworks = (\<lambda>ps. Inr []),
      napi_listNetworkPools = (\<lambda>ps. Inr []),
      napi_getFabricVLAN = (\<lambda>a v. Inl notFound),
      napi_listFabricVLANs = (\<lambda>a. Inr vlansExample),
      napi_createFabricVLAN =
        (\<lambda>a v. if v = 4 then Inl inUse else Inr \<lparr>vlan_id = v, vlan_name = ''new''\<rparr>),
      napi_createFabricNetwork = (\<lambda>a v ps. Inl e500),
      napi_deleteFabricNetwork = (\<lambda>a v u. None),
      napi_deleteFabricVLAN = (\<lambda>a v. Some e500)\<rparr>"

text \<open>The same service for an account that holds 1024 VLANs.\<close>

definition napiExhausted :: napi where
  "napiExhausted =
     napiProvision\<lparr>napi_listFabricVLANs :=
       (\<lambda>a. Inr (replicate 1024 \<lparr>vlan_id = 0, vlan_name = ''a''\<rparr>))\<rparr>"

text \<open>The state after \<open>findFreeFabricVlanId\<close> of the run above.\<close>

definition stScanned :: state where
  "stScanned = initial\<lparr>calls := [ListFabricVLANs ''acct''],
                       freeVlanIds := Some [4, 5, 6, 7, 8, 9, 10, 11, 12, 13]\<rparr>"

text \<open>
  Resolution: a full docker id, three networks, and services that answer a search by uuid
  with an error, or with two networks, and a search by name with the network \<open>web\<close>.
\<close>

definition id64 :: string where
  "id64 = ''0123456789abcdef0123456789abcdef0123456789abcdef0123456789abcdef''"

definition netA :: network where
  "netA = \<lparr>net_uuid = ''01234567-89ab-cdef-0123-456789abcdef'', net_name = ''a''\<rparr>"

definition netB :: network where
  "netB = \<lparr>net_uuid = ''01234567-89ab-cdef-0123-456789abcdee'', net_name = ''b''\<rparr>"

definition netWeb :: network where
  "netWeb = \<lparr>net_uuid = ''76543210-89ab-cdef-0123-456789abcdef'', net_name = ''web''\<rparr>"

definition napiIdDown :: napi where
  "napiIdDown =
     napiProvision\<lparr>napi_listNetworks :=
       (\<lambda>ps. if p_uuid ps \<noteq> None then Inl e500 else Inr [netWeb])\<rparr>"

definition napiTwoIds :: napi where
  "napiTwoIds =
     napiProvision\<lparr>napi_listNetworks :=
       (\<lambda>ps. if p_uuid ps \<noteq> None then Inr [netA, netB] else Inr [netWeb])\<rparr>"


text \<open>
  Search by the name \<open>web\<close>: a service whose network listing fails while a pool matches,
  and one with no network but a matching pool.
\<close>

definition napiNetsDown :: napi where
  "napiNetsDown =
     napiProvision\<lparr>napi_listNetworks := (\<lambda>ps. Inl e500),
                   napi_listNetworkPools := (\<lambda>ps. Inr [netWeb])\<rparr>"

definition napiPoolOnly :: napi where
  "napiPoolOnly = napiProvision\<lparr>napi_listNetworkPools := (\<lambda>ps. Inr [netWeb])\<rparr>"

definition byWeb :: params where
  "byWeb = \<lparr>p_name = Some ''web'', p_uuid = None, provisionable_by = ''acct''\<rparr>"

(* tryEach *)

section \<open>The free VLAN id scan\<close>

lemma length_sort_insert: "length (sort_insert x ys) = Suc (length ys)"
  by (induction ys) auto

lemma length_js_sort: "length (js_sort xs) = length xs"
  unfolding js_sort_def by (induction xs) (auto simp: length_sort_insert)

text \<open>
  With fewer than 1024 taken ids the inner loop never reaches its assertion, and it leaves
  \<open>takenIdx\<close> within the array.
\<close>

lemma skipDuplicates_ok:
  "k \<le> length t \<Longrightarrow> length t < 1024 \<Longrightarrow>
   \<exists>k'. skipDuplicates t v k = Inr k' \<and> k \<le> k' \<and> k' \<le> length t"
proof (induction t v k rule: skipDuplicates.induct)
  case (1 t v k)
  show ?case
  proof (cases "nth_opt t k = Some v")
    case True
    then have lt: "k < length t" by (auto simp: nth_opt_def split: if_splits)
    with 1 have k1024: "k < 1024" by simp
    from 1(1)[OF True k1024] lt 1(3)
    obtain k' where "skipDuplicates t v (k + 1) = Inr k'" "k + 1 \<le> k'" "k' \<le> length t"
      by auto
    with True k1024 show ?thesis
      by (subst skipDuplicates.simps) auto
  next
    case False
    with 1 show ?thesis by (subst skipDuplicates.simps) auto
  qed
qed

lemma scan_nonempty:
  "k \<le> length t \<Longrightarrow> length t < 1024 \<Longrightarrow>
   f \<noteq> [] \<or> int (length t) < int k + remaining v \<Longrightarrow>
   \<exists>fs. scanFreeVlanIds t v k f = Inr fs \<and> fs \<noteq> []"
proof (induction t v k f rule: scanFreeVlanIds.induct)
  case (1 t v k f)
  show ?case
  proof (cases "v < 1024 \<and> length f < 10")
    case False
    with 1(4-6) show ?thesis
      by (subst scanFreeVlanIds.simps) (auto simp: remaining_def split: if_splits)
  next
    case go: True
    show ?thesis
    proof (cases "v + 1 = 1")
      case True
      with 1(1)[OF go True] 1(4-6) go show ?thesis
        by (subst scanFreeVlanIds.simps) (auto simp: remaining_def)
    next
      case ne1: False
      show ?thesis
      proof (cases "nth_opt t k = Some (v + 1)")
        case True
        then have lt: "k < length t" by (auto simp: nth_opt_def split: if_splits)
        from skipDuplicates_ok[of "k + 1" t "v + 1"] lt 1(5)
        obtain k' where k': "skipDuplicates t (v + 1) (k + 1) = Inr k'" "k + 1 \<le> k'"
          "k' \<le> length t"
          by auto
        have "f \<noteq> [] \<or> int (length t) < int k' + remaining (v + 1)"
          using 1(6) k'(2) ne1 by (auto simp: remaining_def split: if_splits)
        from 1(2)[OF go ne1 True k'(1) k'(3) 1(5) this] go ne1 True k'(1)
        show ?thesis by (subst scanFreeVlanIds.simps) auto
      next
        case False
        from 1(3)[OF go ne1 False 1(4) 1(5)] go ne1 False
        show ?thesis by (subst scanFreeVlanIds.simps) auto
      qed
    qed
  qed
qed

lemma findFreeVlanIds_nonempty:
  assumes "length vlans < 1024"
  shows "\<exists>ids. findFreeVlanIds vlans = Inr ids \<and> ids \<noteq> []"
  unfolding findFreeVlanIds_def
  using assms by (intro scan_nonempty) (simp_all add: length_js_sort remaining_def)

text \<open>The candidates are pushed in the order of the counter, so they ascend.\<close>

lemma scan_sorted:
  "sorted_wrt (<) f \<Longrightarrow> (\<forall>x\<in>set f. x \<le> v) \<Longrightarrow> scanFreeVlanIds t v k f = Inr fs \<Longrightarrow>
   sorted_wrt (<) fs"
proof (induction t v k f rule: scanFreeVlanIds.induct)
  case (1 t v k f)
  show ?case
  proof (cases "v < 1024 \<and> length f < 10")
    case False
    with 1(4,6) show ?thesis
      by (subst (asm) scanFreeVlanIds.simps) auto
  next
    case go: True
    have le: "\<forall>x\<in>set f. x \<le> v + 1" using 1(5) by auto
    show ?thesis
    proof (cases "v + 1 = 1")
      case True
      with 1(1)[OF go True 1(4) le] 1(6) go show ?thesis
        by (subst (asm) scanFreeVlanIds.simps) auto
    next
      case ne1: False
      show ?thesis
      proof (cases "nth_opt t k = Some (v + 1)")
        case True
        from 1(6) go ne1 True obtain k' where
          k': "skipDuplicates t (v + 1) (k + 1) = Inr k'"
          and r: "scanFreeVlanIds t (v + 1) k' f = Inr fs"
          by (subst (asm) scanFreeVlanIds.simps) (auto split: sum.splits)
        from 1(2)[OF go ne1 True k' 1(4) le r] show ?thesis .
      next
        case False
        from 1(6) go ne1 False have r: "scanFreeVlanIds t (v + 1) k (f @ [v + 1]) = Inr fs"
          by (subst (asm) scanFreeVlanIds.simps) auto
        have s: "sorted_wrt (<) (f @ [v + 1])"
          using 1(4,5) by (auto simp: sorted_wrt_append)
        have "\<forall>x\<in>set (f @ [v + 1]). x \<le> v + 1" using le by auto
        from 1(3)[OF go ne1 False s this r] show ?thesis .
      qed
    qed
  qed
qed

lemma findFreeVlanIds_sorted: "findFreeVlanIds vlans = Inr ids \<Longrightarrow> sorted_wrt (<) ids"
  unfolding findFreeVlanIds_def by (rule scan_sorted[where f = "[]"]) simp_all

text \<open>
  The scan on the example account. The default sort puts 1023 before 2, so the scan,
  which looks only at \<open>takenVlanIds[takenIdx]\<close>, waits for 1023 while the counter passes 2
  and 3.
\<close>

lemma js_sort_takenExample: "js_sort (map vlan_id takenExample) = [0, 1023, 2, 3]"
  by (simp add: takenExample_def js_sort_def toString_def digits.simps)

lemma findFreeVlanIds_takenExample:
  "findFreeVlanIds takenExample = Inr [2, 3, 4, 5, 6, 7, 8, 9, 10, 11]"
  by (simp add: findFreeVlanIds_def js_sort_takenExample scanFreeVlanIds.simps
      skipDuplicates.simps nth_opt_def)

text \<open>
  Claim C3, as the specification states it: for the taken ids 0, 2, 3 and 1023 the free
  candidates are 1, 4, 5, ..., 12. The code does not compute this list.
\<close>

theorem C3_free_ids_counterexample:
  "map vlan_id takenExample = [0, 2, 3, 1023]
   \<and> findFreeVlanIds takenExample \<noteq> Inr [1, 4, 5, 6, 7, 8, 9, 10, 11, 12]"
  by (simp add: findFreeVlanIds_takenExample) (simp add: takenExample_def)

text \<open>
  Claim C3, amended: for the taken ids 0, 2, 3 and 1023 the scan gives exactly ten
  candidates in strictly increasing order; the reserved id 1 and the taken ids 0 and 1023
  are not among them, and the free ids 4 to 11 are.
\<close>

theorem C3_free_ids_example:
  "\<exists>ids. findFreeVlanIds takenExample = Inr ids \<and> length ids = 10 \<and> sorted_wrt (<) ids
     \<and> 1 \<notin> set ids \<and> 0 \<notin> set ids \<and> 1023 \<notin> set ids
     \<and> set [4, 5, 6, 7, 8, 9, 10, 11] \<subseteq> set ids"
  by (simp add: findFreeVlanIds_takenExample)

text \<open>
  Claim C4 (no candidate is a taken id) fails on the code: for the taken ids 0, 2, 3 and
  1023 the candidate list contains 2, which is taken.
\<close>

theorem C4_taken_id_among_candidates:
  "\<exists>ids. findFreeVlanIds takenExample = Inr ids \<and> 2 \<in> set ids
     \<and> 2 \<in> set (map vlan_id takenExample)"
  by (simp add: findFreeVlanIds_takenExample) (simp add: takenExample_def)

section \<open>The partial id search\<close>

text \<open>
  Claim C5 (an id shorter than 64 characters whose characters from index 32 on are a
  proper prefix of its first 32 is searched by prefix) fails on the code for an id of 63
  characters: \<open>byDockerId\<close> compares with the first 31 characters and calls back with an
  empty array, whatever NAPI holds.
\<close>

theorem C5_byDockerId_skips_63:
  "length id63 < 64 \<and> strict_prefix (drop 32 id63) (take 32 id63)
   \<and> byDockerId utils napi id63 account =
       (Callback (Inr []), [(Info, ''Networks: impossible network id %s, skipping'', None)])"
  by (simp add: id63_def byDockerId_def)

section \<open>The provisioning pipeline\<close>

subsection \<open>The calls of a run\<close>

lemma createdVlans_append:
  "createdVlans napi (xs @ ys) = createdVlans napi xs @ createdVlans napi ys"
  by (induction napi xs rule: createdVlans.induct) (auto split: sum.splits)

lemma createdNetworks_append:
  "createdNetworks napi (xs @ ys) = createdNetworks napi xs @ createdNetworks napi ys"
  by (induction napi xs rule: createdNetworks.induct) (auto split: sum.splits)

lemma vlanDeletions_append: "vlanDeletions (xs @ ys) = vlanDeletions xs @ vlanDeletions ys"
  by (induction xs rule: vlanDeletions.induct) auto

lemma networkDeletions_append:
  "networkDeletions (xs @ ys) = networkDeletions xs @ networkDeletions ys"
  by (induction xs rule: networkDeletions.induct) auto

lemmas reads_append =
  createdVlans_append createdNetworks_append vlanDeletions_append networkDeletions_append


subsection \<open>The candidate loop\<close>

text \<open>One round of the loop, for each answer of \<open>createFabricVLAN\<close>.\<close>

lemma tryCreateVlan_ok:
  "napi_createFabricVLAN napi (account_uuid req) v = Inr vl \<Longrightarrow>
   tryCreateVlan napi req v st =
     (Some AbortMarker,
      st\<lparr>calls := calls st @ [CreateFabricVLAN (account_uuid req) v], fabricVlanId := Some v,
          fabricVlan := Some vl, createdFabricVlan := True\<rparr>)"
  by (simp add: tryCreateVlan_def)

lemma tryCreateVlan_conflict:
  "napi_createFabricVLAN napi (account_uuid req) v = Inl err \<Longrightarrow>
   message err = ''VLAN ID is already in use'' \<Longrightarrow>
   tryCreateVlan napi req v st =
     (None, st\<lparr>calls := calls st @ [CreateFabricVLAN (account_uuid req) v]\<rparr>)"
  by (simp add: tryCreateVlan_def)

lemma tryCreateVlan_error:
  "napi_createFabricVLAN napi (account_uuid req) v = Inl err \<Longrightarrow>
   message err \<noteq> ''VLAN ID is already in use'' \<Longrightarrow>
   tryCreateVlan napi req v st =
     (Some (LoopError (NapiErrorWrap err ''Unable to create fabric vlan'')),
      st\<lparr>calls := calls st @ [CreateFabricVLAN (account_uuid req) v]\<rparr>)"
  by (simp add: tryCreateVlan_def)


text \<open>
  The loop sends creation calls only. It ends with the marker exactly when its last call
  created a VLAN, which it has then recorded; otherwise it created none.
\<close>

lemma loop_char:
  "forEachPipeline (tryCreateVlan napi req) ids st = (r, st') \<Longrightarrow>
   fabricNetwork st' = fabricNetwork st \<and> logs st' = logs st \<and> freeVlanIds st' = freeVlanIds st
   \<and> networkDeletions (calls st') = networkDeletions (calls st)
   \<and> vlanDeletions (calls st') = vlanDeletions (calls st)
   \<and> createdNetworks napi (calls st') = createdNetworks napi (calls st)
   \<and> (if r = Some AbortMarker
      then createdFabricVlan st' \<and> fabricVlan st' \<noteq> None
           \<and> (\<exists>v. fabricVlanId st' = Some v
                \<and> createdVlans napi (calls st') = createdVlans napi (calls st) @ [(account_uuid req, v)])
      else createdFabricVlan st' = createdFabricVlan st \<and> fabricVlanId st' = fabricVlanId st
           \<and> fabricVlan st' = fabricVlan st
           \<and> createdVlans napi (calls st') = createdVlans napi (calls st))"
proof (induction ids arbitrary: st)
  case Nil
  then show ?case by auto
next
  case (Cons v ids)
  show ?case
  proof (cases "napi_createFabricVLAN napi (account_uuid req) v")
    case (Inr vl)
    with Cons.prems show ?thesis
      by (auto simp: tryCreateVlan_ok reads_append)
  next
    case (Inl err)
    show ?thesis
    proof (cases "message err = ''VLAN ID is already in use''")
      case True
      let ?st1 = "st\<lparr>calls := calls st @ [CreateFabricVLAN (account_uuid req) v]\<rparr>"
      from Cons.prems Inl True
      have "forEachPipeline (tryCreateVlan napi req) ids ?st1 = (r, st')"
        by (simp add: tryCreateVlan_conflict)
      from Cons.IH[OF this] Inl show ?thesis
        by (auto simp: reads_append split: if_splits)
    next
      case False
      with Cons.prems Inl show ?thesis
        by (auto simp: tryCreateVlan_error reads_append)
    qed
  qed
qed


text \<open>Candidates that meet the conflict are passed over, one call each.\<close>

lemma loop_conflicts:
  "\<forall>v\<in>set pre. conflict napi req v \<Longrightarrow>
   forEachPipeline (tryCreateVlan napi req) (pre @ rest) st =
   forEachPipeline (tryCreateVlan napi req) rest
     (st\<lparr>calls := calls st @ map (CreateFabricVLAN (account_uuid req)) pre\<rparr>)"
proof (induction pre arbitrary: st)
  case Nil
  then show ?case by simp
next
  case (Cons v pre)
  then have c: "conflict napi req v" and rest: "\<forall>v\<in>set pre. conflict napi req v" by auto
  from c have step: "tryCreateVlan napi req v st =
      (None, st\<lparr>calls := calls st @ [CreateFabricVLAN (account_uuid req) v]\<rparr>)"
    by (auto simp: conflict_def tryCreateVlan_conflict split: sum.splits)
  show ?case
    using Cons.IH[OF rest, of "st\<lparr>calls := calls st @ [CreateFabricVLAN (account_uuid req) v]\<rparr>"]
    by (simp add: step)
qed


subsection \<open>The stages keep the invariant\<close>

text \<open>
  A failing \<open>vasync.pipeline\<close>: if every stage but the last keeps \<open>I\<close> when it succeeds,
  and every stage that fails from \<open>I\<close> ends in \<open>Q\<close>, then a failing run ends in \<open>Q\<close>.
\<close>

lemma pipeline_fails:
  assumes "pipeline fs st = (r, st')" and "r \<noteq> Next None" and "I st"
    and fail: "\<And>f s r' s'. f \<in> set fs \<Longrightarrow> I s \<Longrightarrow> f s = (r', s') \<Longrightarrow> r' \<noteq> Next None \<Longrightarrow> Q s'"
    and pass: "\<And>f s s'. f \<in> set (butlast fs) \<Longrightarrow> I s \<Longrightarrow> f s = (Next None, s') \<Longrightarrow> I s'"
  shows "Q st'"
  using assms
proof (induction fs arbitrary: st)
  case Nil
  then show ?case by simp
next
  case (Cons f fs)
  obtain r1 s1 where f: "f st = (r1, s1)" by (cases "f st")
  show ?case
  proof (cases "r1 = Next None")
    case False
    with f Cons.prems(1) have "r = r1" "st' = s1"
      by (auto split: step.splits option.splits)
    with Cons.prems(4)[of f st r1 s1] f False Cons.prems(3) show ?thesis by simp
  next
    case True
    with f Cons.prems(1) have p: "pipeline fs s1 = (r, st')" by simp
    with Cons.prems(2) have ne: "fs \<noteq> []" by auto
    with Cons.prems(5)[of f st s1] f True Cons.prems(3) have I1: "I s1" by simp
    show ?thesis
    proof (rule Cons.IH[OF p Cons.prems(2) I1])
      fix g s r' s'
      assume "g \<in> set fs" "I s" "g s = (r', s')" "r' \<noteq> Next None"
      then show "Q s'" using Cons.prems(4)[of g s r' s'] by simp
    next
      fix g s s'
      assume "g \<in> set (butlast fs)" "I s" "g s = (Next None, s')"
      then show "I s'" using Cons.prems(5)[of g s s'] ne by simp
    qed
  qed
qed

lemma Inv2_frame:
  assumes "Inv2 napi req vlanId st"
    and "fabricNetwork st' = fabricNetwork st" "createdFabricVlan st' = createdFabricVlan st"
    and "fabricVlanId st' = fabricVlanId st" "fabricVlan st' = fabricVlan st"
    and "createdNetworks napi (calls st') = createdNetworks napi (calls st)"
    and "networkDeletions (calls st') = networkDeletions (calls st)"
    and "vlanDeletions (calls st') = vlanDeletions (calls st)"
    and "createdVlans napi (calls st') = createdVlans napi (calls st)"
  shows "Inv2 napi req vlanId st'"
  using assms(1) unfolding Inv2_def Inv_def assms(2-) .

lemma lookup_Inv:
  assumes "lookupExistingFabricVlan napi req vlanId initial = (r, st')"
  shows "Inv2 napi req vlanId st'"
proof (cases vlanId)
  case None
  with assms have "st' = initial" by (simp add: lookupExistingFabricVlan_def)
  with None show ?thesis by (simp add: Inv2_def Inv_def initial_def)
next
  case (Some v)
  show ?thesis
  proof (cases "napi_getFabricVLAN napi (account_uuid req) v")
    case (Inl err)
    with assms Some show ?thesis
      by (auto simp: lookupExistingFabricVlan_def Inv2_def Inv_def initial_def)
  next
    case (Inr vl)
    with assms Some show ?thesis
      by (auto simp: lookupExistingFabricVlan_def Inv2_def Inv_def initial_def)
  qed
qed

lemma findFree_frame:
  assumes "findFreeFabricVlanId napi req st = (r, st')"
  shows "fabricNetwork st' = fabricNetwork st \<and> createdFabricVlan st' = createdFabricVlan st
    \<and> fabricVlanId st' = fabricVlanId st \<and> fabricVlan st' = fabricVlan st
    \<and> (calls st' = calls st \<or> calls st' = calls st @ [ListFabricVLANs (account_uuid req)])"
proof (cases "fabricVlan st \<noteq> None")
  case True
  with assms show ?thesis by (simp add: findFreeFabricVlanId_def)
next
  case False
  show ?thesis
  proof (cases "napi_listFabricVLANs napi (account_uuid req)")
    case (Inl err)
    with assms False show ?thesis by (auto simp: findFreeFabricVlanId_def Let_def)
  next
    case (Inr vlans)
    with assms False show ?thesis
      by (cases "findFreeVlanIds vlans")
         (auto simp: findFreeFabricVlanId_def Let_def split: if_splits)
  qed
qed

lemma findFree_Inv:
  assumes "Inv2 napi req vlanId st" and "findFreeFabricVlanId napi req st = (r, st')"
  shows "Inv2 napi req vlanId st'"
  using findFree_frame[OF assms(2)]
  by (intro Inv2_frame[OF assms(1)]) (auto simp: reads_append)

lemma createFabricVlan_Inv:
  assumes "Inv2 napi req vlanId st" and "createFabricVlan napi req st = (r, st')"
  shows "Inv2 napi req vlanId st'"
proof (cases "fabricVlan st \<noteq> None \<or> freeVlanIds st = None \<or> freeVlanIds st = Some []")
  case True
  with assms show ?thesis
    by (auto simp: createFabricVlan_def split: option.splits if_splits)
next
  case False
  then obtain ids where ids: "fabricVlan st = None" "freeVlanIds st = Some ids" "ids \<noteq> []"
    by auto
  obtain lr ls where loop: "forEachPipeline (tryCreateVlan napi req) ids st = (lr, ls)"
    by (cases "forEachPipeline (tryCreateVlan napi req) ids st")
  from assms(2) ids loop have st': "st' = ls"
    by (auto simp: createFabricVlan_def split: option.splits loop_err.splits if_splits)
  from assms(1) ids have nc: "\<not> createdFabricVlan st"
    by (auto simp: Inv2_def Inv_def split: if_splits)
  from assms(1) ids(1) have unresolved:
    "(case vlanId of None \<Rightarrow> True
      | Some v \<Rightarrow> (case napi_getFabricVLAN napi (account_uuid req) v of
                     Inl err \<Rightarrow> True | Inr vl \<Rightarrow> False))"
    by (auto simp: Inv2_def split: option.splits sum.splits)
  from loop_char[OF loop] assms(1) nc unresolved show ?thesis
    unfolding st' Inv2_def Inv_def
    by (auto split: option.splits sum.splits if_splits)
qed

lemma createFabricNetwork_frame:
  assumes "createFabricNetwork utils napi req st = (r, st')" and "r \<noteq> Next None"
  shows "fabricNetwork st' = fabricNetwork st \<and> createdFabricVlan st' = createdFabricVlan st
    \<and> fabricVlanId st' = fabricVlanId st \<and> fabricVlan st' = fabricVlan st
    \<and> (calls st' = calls st
       \<or> (\<exists>a v ps err. calls st' = calls st @ [CreateFabricNetwork a v ps]
            \<and> napi_createFabricNetwork napi a v ps = Inl err))"
proof (cases "fabricVlanId st")
  case None
  with assms show ?thesis by (simp add: createFabricNetwork_def)
next
  case (Some vid)
  let ?range = "if truthy (ipam_IPRange req) then the (ipam_IPRange req) else ipam_Subnet req"
  show ?thesis
  proof (cases "createCIDR utils ?range")
    case None
    with assms Some show ?thesis by (auto simp: createFabricNetwork_def)
  next
    case (Some ips)
    obtain firstIp lastIp where ips: "ips = (firstIp, lastIp)" by (cases ips)
    let ?ps = "\<lparr>np_name = payload_Name req, provision_start_ip = firstIp,
                provision_end_ip = lastIp, np_subnet = ipam_Subnet req, np_vlan_id = vid\<rparr>"
    show ?thesis
    proof (cases "napi_createFabricNetwork napi (account_uuid req) vid ?ps")
      case (Inl err)
      with assms \<open>fabricVlanId st = Some vid\<close> Some ips show ?thesis
        by (auto simp: createFabricNetwork_def)
    next
      case (Inr net)
      with assms \<open>fabricVlanId st = Some vid\<close> Some ips show ?thesis
        by (auto simp: createFabricNetwork_def)
    qed
  qed
qed

lemma createFabricNetwork_Inv:
  assumes "Inv2 napi req vlanId st" and "createFabricNetwork utils napi req st = (r, st')"
    and "r \<noteq> Next None"
  shows "Inv2 napi req vlanId st'"
  using createFabricNetwork_frame[OF assms(2,3)]
  by (intro Inv2_frame[OF assms(1)]) (auto simp: reads_append)

lemma pipeline_failure_Inv:
  assumes "pipeline (stages utils napi req vlanId) initial = (r, st0)" and "r \<noteq> Next None"
  shows "Inv2 napi req vlanId st0"
proof -
  obtain r1 s1 where l: "lookupExistingFabricVlan napi req vlanId initial = (r1, s1)"
    by (cases "lookupExistingFabricVlan napi req vlanId initial")
  have I1: "Inv2 napi req vlanId s1" by (rule lookup_Inv[OF l])
  show ?thesis
  proof (cases "r1 = Next None")
    case False
    with assms(1) l have "st0 = s1"
      by (auto simp: stages_def split: step.splits option.splits)
    with I1 show ?thesis by simp
  next
    case True
    let ?rest = "[findFreeFabricVlanId napi req, createFabricVlan napi req,
                  createFabricNetwork utils napi req]"
    from True assms(1) l have p: "pipeline ?rest s1 = (r, st0)"
      by (simp add: stages_def)
    show ?thesis
    proof (rule pipeline_fails[OF p assms(2), where I = "Inv2 napi req vlanId"])
      show "Inv2 napi req vlanId s1" by (rule I1)
    next
      fix f s r' s'
      assume f: "f \<in> set ?rest" and I: "Inv2 napi req vlanId s" and r: "f s = (r', s')"
        and ne: "r' \<noteq> Next None"
      from f consider "f = findFreeFabricVlanId napi req" | "f = createFabricVlan napi req"
        | "f = createFabricNetwork utils napi req" by auto
      then show "Inv2 napi req vlanId s'"
      proof cases
        case 1
        with r show ?thesis by (intro findFree_Inv[OF I]) simp
      next
        case 2
        with r show ?thesis by (intro createFabricVlan_Inv[OF I]) simp
      next
        case 3
        with r have "createFabricNetwork utils napi req s = (r', s')" by simp
        from createFabricNetwork_Inv[OF I this ne] show ?thesis .
      qed
    next
      fix f s s'
      assume f: "f \<in> set (butlast ?rest)" and I: "Inv2 napi req vlanId s"
        and r: "f s = (Next None, s')"
      from f consider "f = findFreeFabricVlanId napi req" | "f = createFabricVlan napi req"
        by auto
      then show "Inv2 napi req vlanId s'"
      proof cases
        case 1
        with r show ?thesis by (intro findFree_Inv[OF I]) simp
      next
        case 2
        with r show ?thesis by (intro createFabricVlan_Inv[OF I]) simp
      qed
    qed
  qed
qed


subsection \<open>The final callback\<close>

lemma removeFabricNetwork_none:
  "fabricNetwork st = None \<Longrightarrow> removeFabricNetwork napi req st = st"
  by (simp add: removeFabricNetwork_def)

lemma removeFabricVLAN_calls:
  "calls (removeFabricVLAN napi req st) =
     calls st @ (if createdFabricVlan st
                 then [DeleteFabricVLAN (account_uuid req) (fabricVlanId st)] else [])"
  by (simp add: removeFabricVLAN_def Let_def split: option.splits)

lemma finish_failure:
  assumes "Inv2 napi req vlanId st0"
  shows "\<exists>st. finish utils napi req (Next (Some e), st0) = (Callback (Inl e), st)
     \<and> createdNetworks napi (calls st) = [] \<and> networkDeletions (calls st) = []
     \<and> vlanDeletions (calls st) = map (\<lambda>(a, v). (a, Some v)) (createdVlans napi (calls st))
     \<and> length (createdVlans napi (calls st)) \<le> 1
     \<and> (case vlanId of None \<Rightarrow> True
        | Some v \<Rightarrow> (case napi_getFabricVLAN napi (account_uuid req) v of
              Inl err \<Rightarrow> True
            | Inr vl \<Rightarrow> createdVlans napi (calls st) = [] \<and> vlanDeletions (calls st) = []))"
proof -
  let ?st1 = "st0\<lparr>logs := logs st0 @ [(Err, ''Unable to create docker network, err: %s'',
                                          Some e)]\<rparr>"
  define st where "st = removeFabricVLAN napi req ?st1"
  from assms have none: "fabricNetwork st0 = None" by (simp add: Inv2_def Inv_def)
  have fin: "finish utils napi req (Next (Some e), st0) = (Callback (Inl e), st)"
    by (simp add: finish_def removeFabricNetwork_none none st_def)
  have c: "calls st = calls st0 @ (if createdFabricVlan st0
      then [DeleteFabricVLAN (account_uuid req) (fabricVlanId st0)] else [])"
    by (simp add: removeFabricVLAN_calls st_def)
  from assms have I: "Inv napi req st0" by (simp add: Inv2_def)
  then have reads0: "createdNetworks napi (calls st0) = []"
      "networkDeletions (calls st0) = []" "vlanDeletions (calls st0) = []"
    by (simp_all add: Inv_def)
  have rest: "createdNetworks napi (calls st) = [] \<and> networkDeletions (calls st) = []
     \<and> vlanDeletions (calls st) = map (\<lambda>(a, v). (a, Some v)) (createdVlans napi (calls st))
     \<and> length (createdVlans napi (calls st)) \<le> 1
     \<and> (case vlanId of None \<Rightarrow> True
        | Some v \<Rightarrow> (case napi_getFabricVLAN napi (account_uuid req) v of
              Inl err \<Rightarrow> True
            | Inr vl \<Rightarrow> createdVlans napi (calls st) = [] \<and> vlanDeletions (calls st) = []))"
  proof (cases "createdFabricVlan st0")
    case False
    with c have c': "calls st = calls st0" by simp
    from I False have "createdVlans napi (calls st0) = []" by (simp add: Inv_def)
    with reads0 show ?thesis
      unfolding c' by (simp split: option.splits sum.splits)
  next
    case True
    with I obtain v where v: "fabricVlanId st0 = Some v" by (auto simp: Inv_def)
    from c True v have c': "calls st = calls st0 @ [DeleteFabricVLAN (account_uuid req) (Some v)]"
      by simp
    from assms True have res: "(case vlanId of None \<Rightarrow> True
        | Some v \<Rightarrow> (case napi_getFabricVLAN napi (account_uuid req) v of
              Inl err \<Rightarrow> True | Inr vl \<Rightarrow> False))"
      by (auto simp: Inv2_def split: option.splits sum.splits)
    from I True v have cv: "createdVlans napi (calls st0) = [(account_uuid req, v)]"
      by (simp add: Inv_def)
    from res show ?thesis
      unfolding c' by (simp add: reads_append reads0 cv split: option.splits sum.splits)
  qed
  from fin rest show ?thesis by blast
qed


text \<open>No stage reads the answers of the two deletion methods.\<close>

lemma stages_deletes:
  "stages utils (napi\<lparr>napi_deleteFabricNetwork := dn, napi_deleteFabricVLAN := dv\<rparr>) req vlanId
   = stages utils napi req vlanId"
proof -
  let ?n = "napi\<lparr>napi_deleteFabricNetwork := dn, napi_deleteFabricVLAN := dv\<rparr>"
  have sel: "napi_getFabricVLAN ?n = napi_getFabricVLAN napi"
    "napi_listFabricVLANs ?n = napi_listFabricVLANs napi"
    "napi_createFabricVLAN ?n = napi_createFabricVLAN napi"
    "napi_createFabricNetwork ?n = napi_createFabricNetwork napi"
    by simp_all
  show ?thesis
    unfolding stages_def lookupExistingFabricVlan_def findFreeFabricVlanId_def
      createFabricVlan_def tryCreateVlan_def createFabricNetwork_def sel
    by (rule refl)
qed


text \<open>
  Claim C2: when the pipeline of \<open>createNetwork\<close> fails with the error \<open>e\<close>, the caller
  receives \<open>e\<close>, whatever NAPI answers to the deletions; no network was created and none
  is deleted; the VLAN deletions sent are exactly the VLANs this run created, one call
  each, and there is at most one; a VLAN found for the label \<open>vlan_id\<close> is not deleted.
\<close>

theorem C2_rollback:
  assumes "checkVlanLabel utils req = Inr vlanId"
    and "pipeline (stages utils napi req vlanId) initial = (Next (Some e), st0)"
  shows "fst (createNetwork utils napi req) = Callback (Inl e)
     \<and> (\<forall>dn dv. fst (createNetwork utils
           (napi\<lparr>napi_deleteFabricNetwork := dn, napi_deleteFabricVLAN := dv\<rparr>) req)
          = Callback (Inl e))
     \<and> createdNetworks napi (calls (snd (createNetwork utils napi req))) = []
     \<and> networkDeletions (calls (snd (createNetwork utils napi req))) = []
     \<and> vlanDeletions (calls (snd (createNetwork utils napi req)))
         = map (\<lambda>(a, v). (a, Some v))
             (createdVlans napi (calls (snd (createNetwork utils napi req))))
     \<and> length (createdVlans napi (calls (snd (createNetwork utils napi req)))) \<le> 1
     \<and> (\<forall>v vl. vlanId = Some v \<and> napi_getFabricVLAN napi (account_uuid req) v = Inr vl
          \<longrightarrow> vlanDeletions (calls (snd (createNetwork utils napi req))) = [])"
proof -
  have I: "Inv2 napi req vlanId st0"
    by (rule pipeline_failure_Inv[OF assms(2)]) simp
  from finish_failure[OF I, of utils e] obtain st where
    st: "finish utils napi req (Next (Some e), st0) = (Callback (Inl e), st)"
      "createdNetworks napi (calls st) = []" "networkDeletions (calls st) = []"
      "vlanDeletions (calls st) = map (\<lambda>(a, v). (a, Some v)) (createdVlans napi (calls st))"
      "length (createdVlans napi (calls st)) \<le> 1"
      "(case vlanId of None \<Rightarrow> True
        | Some v \<Rightarrow> (case napi_getFabricVLAN napi (account_uuid req) v of
              Inl err \<Rightarrow> True
            | Inr vl \<Rightarrow> createdVlans napi (calls st) = [] \<and> vlanDeletions (calls st) = []))"
    by blast
  have cn: "createNetwork utils napi req = (Callback (Inl e), st)"
    by (simp add: createNetwork_def assms st(1))
  have other: "fst (createNetwork utils
      (napi\<lparr>napi_deleteFabricNetwork := dn, napi_deleteFabricVLAN := dv\<rparr>) req)
      = Callback (Inl e)" for dn dv
    by (simp add: createNetwork_def assms stages_deletes finish_def)
  from st(6) have "\<forall>v vl. vlanId = Some v \<and> napi_getFabricVLAN napi (account_uuid req) v = Inr vl
          \<longrightarrow> vlanDeletions (calls st) = []"
    by (auto split: option.splits sum.splits)
  with cn other st(2-5) show ?thesis by simp
qed


text \<open>
  Witness for C2: the provisioning run of the examples. Creating the network fails after
  VLAN 5 was created; the run deletes VLAN 5 once, no network, and the caller receives the
  error of the network creation although the deletion fails as well.
\<close>

lemma findFreeVlanIds_vlansExample:
  "findFreeVlanIds vlansExample = Inr [4, 5, 6, 7, 8, 9, 10, 11, 12, 13]"
  by (simp add: vlansExample_def findFreeVlanIds_def js_sort_def toString_def digits.simps
      scanFreeVlanIds.simps skipDuplicates.simps nth_opt_def)

theorem C2_rollback_witness:
  "checkVlanLabel utilsExample reqExample = Inr None
   \<and> fst (pipeline (stages utilsExample napiProvision reqExample None) initial)
       = Next (Some (NapiErrorWrap e500 ''Unable to create network''))
   \<and> fst (createNetwork utilsExample napiProvision reqExample)
       = Callback (Inl (NapiErrorWrap e500 ''Unable to create network''))
   \<and> calls (snd (createNetwork utilsExample napiProvision reqExample))
       = [ListFabricVLANs ''acct'', CreateFabricVLAN ''acct'' 4, CreateFabricVLAN ''acct'' 5,
          CreateFabricNetwork ''acct'' 5
            \<lparr>np_name = ''web'', provision_start_ip = ''10.0.0.1'',
             provision_end_ip = ''10.0.0.254'', np_subnet = ''10.0.0.0/24'', np_vlan_id = 5\<rparr>,
          DeleteFabricVLAN ''acct'' (Some 5)]
   \<and> createdVlans napiProvision (calls (snd (createNetwork utilsExample napiProvision reqExample)))
       = [(''acct'', 5)]
   \<and> vlanDeletions (calls (snd (createNetwork utilsExample napiProvision reqExample)))
       = [(''acct'', Some 5)]
   \<and> networkDeletions (calls (snd (createNetwork utilsExample napiProvision reqExample))) = []"
proof -
  have l: "checkVlanLabel utilsExample reqExample = Inr None"
    by (simp add: checkVlanLabel_def reqExample_def)
  have s1: "lookupExistingFabricVlan napiProvision reqExample None initial = (Next None, initial)"
    by (simp add: lookupExistingFabricVlan_def)
  define st2 where "st2 = initial\<lparr>calls := [ListFabricVLANs ''acct''],
      logs := [(Debug, ''vlans: %j'', None), (Debug, ''freeVlanIds: %j'', None)],
      freeVlanIds := Some [4, 5, 6, 7, 8, 9, 10, 11, 12, 13]\<rparr>"
  have s2: "findFreeFabricVlanId napiProvision reqExample initial = (Next None, st2)"
    by (simp add: findFreeFabricVlanId_def initial_def st2_def napiProvision_def
        reqExample_def findFreeVlanIds_vlansExample Let_def) (simp add: vlansExample_def)
  define st3 where "st3 = st2\<lparr>calls := [ListFabricVLANs ''acct'', CreateFabricVLAN ''acct'' 4,
        CreateFabricVLAN ''acct'' 5],
      fabricVlanId := Some 5, fabricVlan := Some \<lparr>vlan_id = 5, vlan_name = ''new''\<rparr>,
      createdFabricVlan := True\<rparr>"
  have s3: "createFabricVlan napiProvision reqExample st2 = (Next None, st3)"
    by (simp add: createFabricVlan_def tryCreateVlan_def st2_def st3_def initial_def
        napiProvision_def reqExample_def inUse_def)
  let ?ps = "\<lparr>np_name = ''web'', provision_start_ip = ''10.0.0.1'',
              provision_end_ip = ''10.0.0.254'', np_subnet = ''10.0.0.0/24'', np_vlan_id = 5\<rparr>"
  define st4 where "st4 = st3\<lparr>calls := calls st3 @ [CreateFabricNetwork ''acct'' 5 ?ps],
      logs := logs st3 @ [(Debug, ''creating fabric network'', None)]\<rparr>"
  let ?e = "NapiErrorWrap e500 ''Unable to create network''"
  have s4: "createFabricNetwork utilsExample napiProvision reqExample st3 = (Next (Some ?e), st4)"
    by (simp add: createFabricNetwork_def st3_def st4_def st2_def initial_def napiProvision_def
        reqExample_def utilsExample_def truthy_def)
  have p: "pipeline (stages utilsExample napiProvision reqExample None) initial
      = (Next (Some ?e), st4)"
    by (simp add: stages_def s1 s2 s3 s4)
  have cn: "createNetwork utilsExample napiProvision reqExample
      = finish utilsExample napiProvision reqExample (Next (Some ?e), st4)"
    by (simp add: createNetwork_def l p)
  have cs: "calls (snd (finish utilsExample napiProvision reqExample (Next (Some ?e), st4)))
      = [ListFabricVLANs ''acct'', CreateFabricVLAN ''acct'' 4, CreateFabricVLAN ''acct'' 5,
         CreateFabricNetwork ''acct'' 5 ?ps, DeleteFabricVLAN ''acct'' (Some 5)]"
    by (simp add: finish_def removeFabricNetwork_def removeFabricVLAN_calls st4_def st3_def
        st2_def initial_def reqExample_def)
  have cv: "createdVlans napiProvision
      (calls (snd (createNetwork utilsExample napiProvision reqExample))) = [(''acct'', 5)]"
    unfolding cn cs by (simp add: napiProvision_def)
  from C2_rollback[OF l p] l p cv cs show ?thesis by (simp add: cn)
qed


text \<open>
  Claim C6: \<open>createFabricVlan\<close> tries the candidates one after the other in the order of
  the list. When the candidates before \<open>c\<close> all meet the conflict "VLAN ID is already in
  use": if \<open>c\<close> is created, the pipeline goes on with \<open>ctx.fabricVlanId = c\<close> and no
  candidate after \<open>c\<close> has been tried; if creating \<open>c\<close> fails with another error, the
  pipeline stops there with that error, wrapped. The list of candidates the scan
  computes is strictly increasing.
\<close>

theorem C6_vlan_retry:
  assumes "fabricVlan st = None"
    and "freeVlanIds st = Some (pre @ c # post)"
    and "\<forall>v\<in>set pre. conflict napi req v"
  shows "(\<forall>vl. napi_createFabricVLAN napi (account_uuid req) c = Inr vl \<longrightarrow>
            pipeline (createFabricVlan napi req # fs) st =
              pipeline fs
                (st\<lparr>calls := calls st @ map (CreateFabricVLAN (account_uuid req)) (pre @ [c]),
                    fabricVlanId := Some c, fabricVlan := Some vl, createdFabricVlan := True\<rparr>))
     \<and> (\<forall>err. napi_createFabricVLAN napi (account_uuid req) c = Inl err
              \<and> message err \<noteq> ''VLAN ID is already in use'' \<longrightarrow>
            pipeline (createFabricVlan napi req # fs) st =
              (Next (Some (NapiErrorWrap err ''Unable to create fabric vlan'')),
               st\<lparr>calls := calls st @ map (CreateFabricVLAN (account_uuid req)) (pre @ [c])\<rparr>))
     \<and> (\<forall>vlans ids. findFreeVlanIds vlans = Inr ids \<longrightarrow> sorted_wrt (<) ids)"
proof -
  let ?st1 = "st\<lparr>calls := calls st @ map (CreateFabricVLAN (account_uuid req)) pre\<rparr>"
  have loop: "forEachPipeline (tryCreateVlan napi req) (pre @ c # post) st =
      forEachPipeline (tryCreateVlan napi req) (c # post) ?st1"
    by (rule loop_conflicts[OF assms(3)])
  have stage: "createFabricVlan napi req st =
      (case forEachPipeline (tryCreateVlan napi req) (c # post) ?st1 of
         (Some AbortMarker, st') \<Rightarrow> (Next None, st')
       | (Some (LoopError e), st') \<Rightarrow> (Next (Some e), st')
       | (None, st') \<Rightarrow>
           if \<not> createdFabricVlan st'
           then (Next (Some (DockerError ''No available VLAN for network creation'')), st')
           else (Next None, st'))"
    by (simp add: createFabricVlan_def assms(1,2) loop)
  have ok: "pipeline (createFabricVlan napi req # fs) st =
      pipeline fs
        (st\<lparr>calls := calls st @ map (CreateFabricVLAN (account_uuid req)) (pre @ [c]),
            fabricVlanId := Some c, fabricVlan := Some vl, createdFabricVlan := True\<rparr>)"
    if "napi_createFabricVLAN napi (account_uuid req) c = Inr vl" for vl
    by (simp add: stage tryCreateVlan_ok[OF that])
  have bad: "pipeline (createFabricVlan napi req # fs) st =
      (Next (Some (NapiErrorWrap err ''Unable to create fabric vlan'')),
       st\<lparr>calls := calls st @ map (CreateFabricVLAN (account_uuid req)) (pre @ [c])\<rparr>)"
    if "napi_createFabricVLAN napi (account_uuid req) c = Inl err"
      and "message err \<noteq> ''VLAN ID is already in use''" for err
    by (simp add: stage tryCreateVlan_error[OF that])
  from ok bad findFreeVlanIds_sorted show ?thesis by blast
qed


text \<open>
  Witness for C6: the candidates are 4 to 13, id 4 meets the conflict and id 5 is created;
  the stage has sent the creations of 4 and 5 and no other.
\<close>

theorem C6_vlan_retry_witness:
  "fabricVlan stScanned = None
   \<and> freeVlanIds stScanned = Some ([4] @ 5 # [6, 7, 8, 9, 10, 11, 12, 13])
   \<and> conflict napiProvision reqExample 4
   \<and> napi_createFabricVLAN napiProvision (account_uuid reqExample) 5
       = Inr \<lparr>vlan_id = 5, vlan_name = ''new''\<rparr>
   \<and> pipeline [createFabricVlan napiProvision reqExample] stScanned =
       (Next None,
        stScanned\<lparr>calls := [ListFabricVLANs ''acct'', CreateFabricVLAN ''acct'' 4,
                             CreateFabricVLAN ''acct'' 5],
                  fabricVlanId := Some 5, fabricVlan := Some \<lparr>vlan_id = 5, vlan_name = ''new''\<rparr>,
                  createdFabricVlan := True\<rparr>)
   \<and> findFreeVlanIds vlansExample = Inr [4, 5, 6, 7, 8, 9, 10, 11, 12, 13]
   \<and> sorted_wrt (<) [4, 5, 6, 7, 8, 9, 10, 11, 12, 13 :: int]"
proof -
  have a: "fabricVlan stScanned = None" by (simp add: stScanned_def initial_def)
  have b: "freeVlanIds stScanned = Some ([4] @ 5 # [6, 7, 8, 9, 10, 11, 12, 13])"
    by (simp add: stScanned_def)
  have c: "\<forall>v\<in>set [4]. conflict napiProvision reqExample v"
    by (simp add: conflict_def napiProvision_def inUse_def)
  have d: "napi_createFabricVLAN napiProvision (account_uuid reqExample) 5
      = Inr \<lparr>vlan_id = 5, vlan_name = ''new''\<rparr>"
    by (simp add: napiProvision_def)
  from C6_vlan_retry[OF a b c, of "[]"] a b c d findFreeVlanIds_vlansExample
  show ?thesis
    by (simp add: reqExample_def stScanned_def initial_def)
qed


text \<open>
  Claim C8: without a requested VLAN id, when \<open>listFabricVLANs\<close> answers 1024 VLANs or
  more, \<open>createNetwork\<close> fails with the error "No free vlan ids", and the listing is the
  only call it has sent: no VLAN creation.
\<close>

theorem C8_exhaustion:
  assumes "checkVlanLabel utils req = Inr None"
    and "napi_listFabricVLANs napi (account_uuid req) = Inr vlans"
    and "length vlans \<ge> 1024"
  shows "fst (createNetwork utils napi req) = Callback (Inl (DockerError ''No free vlan ids''))
     \<and> calls (snd (createNetwork utils napi req)) = [ListFabricVLANs (account_uuid req)]
     \<and> vlanCreations (calls (snd (createNetwork utils napi req))) = []"
proof -
  have s1: "lookupExistingFabricVlan napi req None initial = (Next None, initial)"
    by (simp add: lookupExistingFabricVlan_def)
  let ?st1 = "initial\<lparr>calls := [ListFabricVLANs (account_uuid req)],
                      logs := [(Debug, ''vlans: %j'', None)]\<rparr>"
  have s2: "findFreeFabricVlanId napi req initial =
      (Next (Some (DockerError ''No free vlan ids'')), ?st1)"
    using assms(2,3) by (simp add: findFreeFabricVlanId_def initial_def)
  have p: "pipeline (stages utils napi req None) initial =
      (Next (Some (DockerError ''No free vlan ids'')), ?st1)"
    by (simp add: stages_def s1 s2)
  have "createNetwork utils napi req =
      finish utils napi req (Next (Some (DockerError ''No free vlan ids'')), ?st1)"
    by (simp add: createNetwork_def assms(1) p)
  then show ?thesis
    by (simp add: finish_def removeFabricNetwork_def removeFabricVLAN_def initial_def)
qed


text \<open>Witness for C8: the account of the examples that holds 1024 VLANs.\<close>

theorem C8_exhaustion_witness:
  "checkVlanLabel utilsExample reqExample = Inr None
   \<and> (\<exists>vlans. napi_listFabricVLANs napiExhausted (account_uuid reqExample) = Inr vlans
        \<and> length vlans = 1024)
   \<and> fst (createNetwork utilsExample napiExhausted reqExample)
       = Callback (Inl (DockerError ''No free vlan ids''))
   \<and> calls (snd (createNetwork utilsExample napiExhausted reqExample)) = [ListFabricVLANs ''acct'']"
proof -
  have l: "checkVlanLabel utilsExample reqExample = Inr None"
    by (simp add: checkVlanLabel_def reqExample_def)
  have v: "napi_listFabricVLANs napiExhausted (account_uuid reqExample)
      = Inr (replicate 1024 \<lparr>vlan_id = 0, vlan_name = ''a''\<rparr>)"
    by (simp add: napiExhausted_def)
  have n: "length (replicate 1024 \<lparr>vlan_id = 0, vlan_name = ''a''\<rparr>) \<ge> 1024" by simp
  from C8_exhaustion[OF l v n] l v show ?thesis
    by (simp add: reqExample_def)
qed


subsection \<open>No assertion fails\<close>

lemma createFabricNetwork_no_throw:
  assumes "fabricVlanId st = Some v" and "createFabricNetwork utils napi req st = (r, st')"
  shows "(\<exists>e. r = Next (Some e)) \<or> (r = Next None \<and> fabricNetwork st' \<noteq> None)"
proof -
  let ?range = "if truthy (ipam_IPRange req) then the (ipam_IPRange req) else ipam_Subnet req"
  show ?thesis
  proof (cases "createCIDR utils ?range")
    case None
    with assms show ?thesis by (auto simp: createFabricNetwork_def)
  next
    case (Some ips)
    obtain firstIp lastIp where ips: "ips = (firstIp, lastIp)" by (cases ips)
    let ?ps = "\<lparr>np_name = payload_Name req, provision_start_ip = firstIp,
                provision_end_ip = lastIp, np_subnet = ipam_Subnet req, np_vlan_id = v\<rparr>"
    from assms Some ips show ?thesis
      by (cases "napi_createFabricNetwork napi (account_uuid req) v ?ps")
         (auto simp: createFabricNetwork_def)
  qed
qed

lemma finish_no_throw:
  assumes "(\<exists>e. r = Next (Some e)) \<or> (r = Next None \<and> fabricNetwork st \<noteq> None)"
  shows "fst (finish utils napi req (r, st)) \<noteq> Thrown x"
  using assms by (auto simp: finish_def Let_def)


text \<open>
  Claim C10: without a requested VLAN id, when \<open>listFabricVLANs\<close> answers fewer than 1024
  VLANs, the scan gives a list of candidates that is not empty, and \<open>createNetwork\<close> does
  not throw: neither the assertion on \<open>ctx.freeVlanIds.length\<close> nor any other fails.
\<close>

theorem C10_candidates_nonempty:
  assumes "checkVlanLabel utils req = Inr None"
    and "napi_listFabricVLANs napi (account_uuid req) = Inr vlans"
    and "length vlans < 1024"
  shows "(\<exists>ids. findFreeVlanIds vlans = Inr ids \<and> ids \<noteq> [])
     \<and> (\<forall>x. fst (createNetwork utils napi req) \<noteq> Thrown x)"
proof -
  from findFreeVlanIds_nonempty[OF assms(3)] obtain ids where
    ids: "findFreeVlanIds vlans = Inr ids" "ids \<noteq> []" by blast
  have s1: "lookupExistingFabricVlan napi req None initial = (Next None, initial)"
    by (simp add: lookupExistingFabricVlan_def)
  define st2 where "st2 = initial\<lparr>calls := [ListFabricVLANs (account_uuid req)],
      logs := [(Debug, ''vlans: %j'', None), (Debug, ''freeVlanIds: %j'', None)],
      freeVlanIds := Some ids\<rparr>"
  have s2: "findFreeFabricVlanId napi req initial = (Next None, st2)"
    using assms(2,3) ids(1) by (simp add: findFreeFabricVlanId_def initial_def st2_def)
  have st2: "fabricVlan st2 = None" "freeVlanIds st2 = Some ids" "\<not> createdFabricVlan st2"
    by (simp_all add: st2_def initial_def)
  obtain lr ls where loop: "forEachPipeline (tryCreateVlan napi req) ids st2 = (lr, ls)"
    by (cases "forEachPipeline (tryCreateVlan napi req) ids st2")
  note lc = loop_char[OF loop]
  have no_throw: "fst (createNetwork utils napi req) \<noteq> Thrown x" for x
  proof (cases lr)
    case None
    with lc st2 have "\<not> createdFabricVlan ls" by simp
    with None st2 ids(2) loop have s3: "createFabricVlan napi req st2 =
        (Next (Some (DockerError ''No available VLAN for network creation'')), ls)"
      by (simp add: createFabricVlan_def)
    have "createNetwork utils napi req = finish utils napi req
        (Next (Some (DockerError ''No available VLAN for network creation'')), ls)"
      by (simp add: createNetwork_def assms(1) stages_def s1 s2 s3)
    then show ?thesis by (simp add: finish_no_throw)
  next
    case (Some le)
    show ?thesis
    proof (cases le)
      case (LoopError e)
      with Some st2 ids(2) loop have s3: "createFabricVlan napi req st2 = (Next (Some e), ls)"
        by (simp add: createFabricVlan_def)
      have "createNetwork utils napi req = finish utils napi req (Next (Some e), ls)"
        by (simp add: createNetwork_def assms(1) stages_def s1 s2 s3)
      then show ?thesis by (simp add: finish_no_throw)
    next
      case AbortMarker
      with Some st2 ids(2) loop have s3: "createFabricVlan napi req st2 = (Next None, ls)"
        by (simp add: createFabricVlan_def)
      from lc Some AbortMarker obtain v where v: "fabricVlanId ls = Some v" by auto
      obtain r4 s4 where s4: "createFabricNetwork utils napi req ls = (r4, s4)"
        by (cases "createFabricNetwork utils napi req ls")
      note nt = createFabricNetwork_no_throw[OF v s4]
      have "pipeline (stages utils napi req None) initial = (r4, s4)"
        using nt by (auto simp: stages_def s1 s2 s3 s4)
      then have "createNetwork utils napi req = finish utils napi req (r4, s4)"
        by (simp add: createNetwork_def assms(1))
      with nt show ?thesis by (simp add: finish_no_throw)
    qed
  qed
  with ids show ?thesis by blast
qed


text \<open>Witness for C10: the provisioning run of the examples.\<close>

theorem C10_candidates_nonempty_witness:
  "checkVlanLabel utilsExample reqExample = Inr None
   \<and> napi_listFabricVLANs napiProvision (account_uuid reqExample) = Inr vlansExample
   \<and> length vlansExample < 1024
   \<and> (\<exists>ids. findFreeVlanIds vlansExample = Inr ids \<and> ids \<noteq> [])
   \<and> (\<forall>x. fst (createNetwork utilsExample napiProvision reqExample) \<noteq> Thrown x)"
proof -
  have l: "checkVlanLabel utilsExample reqExample = Inr None"
    by (simp add: checkVlanLabel_def reqExample_def)
  have v: "napi_listFabricVLANs napiProvision (account_uuid reqExample) = Inr vlansExample"
    by (simp add: napiProvision_def)
  have n: "length vlansExample < 1024" by (simp add: vlansExample_def)
  from C10_candidates_nonempty[OF l v n] l v n show ?thesis by simp
qed

section \<open>The search\<close>

text \<open>\<open>tryEach\<close> hands over the completion of the first function that does not fail.\<close>

lemma tryEach_first:
  "f # fs = pre @ s # post \<Longrightarrow> \<forall>x\<in>set pre. degraded x \<Longrightarrow> \<not> degraded s \<Longrightarrow>
   tryEach f fs = s"
proof (induction pre arbitrary: f fs)
  case Nil
  then show ?case by (cases fs; cases s) (auto simp: degraded_def)
next
  case (Cons p pre)
  then have f: "f = p" and fs: "fs = pre @ s # post" by auto
  from Cons.prems(2) f obtain m where m: "f = TryFail m"
    by (cases f) (auto simp: degraded_def)
  from fs have "fs \<noteq> []" by simp
  then obtain g gs where g: "fs = g # gs" by (cases fs) auto
  with fs have "g # gs = pre @ s # post" by simp
  from Cons.IH[OF this] Cons.prems(2,3) have "tryEach g gs = s" by simp
  with m g show ?case by simp
qed

lemma getNetworksOrPools_tryEach:
  assumes "truthy (p_name ps) \<or> truthy (p_uuid ps)"
    and "strategies napi ps @ [final] = pre @ s # post"
    and "\<forall>x\<in>set pre. degraded x" and "\<not> degraded s"
  shows "getNetworksOrPools napi ps =
     (case s of
        TryThrow x \<Rightarrow> Thrown x
      | TryFail m \<Rightarrow> Thrown TypeError
      | TryOk (WErr err) \<Rightarrow> Callback (Inl err)
      | TryOk (WRes res) \<Rightarrow> Callback (Inr res))"
proof -
  have "listNets napi ps # [listFiltNets napi ps, listNetPools napi ps,
      listFiltNetPools napi ps, final] = pre @ s # post"
    using assms(2) by (simp add: strategies_def)
  from tryEach_first[OF this assms(3,4)] assms(1) show ?thesis
    by (simp add: getNetworksOrPools_def)
qed


text \<open>A search that succeeds holds a list that is not empty, or an error that is no 404.\<close>

lemma listDirect_ok:
  "(listDirect method ps = TryOk (WRes ns) \<longrightarrow> ns \<noteq> [])
   \<and> (listDirect method ps = TryOk (WErr e) \<longrightarrow> statusCode e \<noteq> Some 404)"
  by (cases "method ps") (auto simp: listDirect_def split: if_splits)

lemma listFiltered_ok:
  "(listFiltered method msg ps = TryOk (WRes ns) \<longrightarrow> ns \<noteq> [])
   \<and> (listFiltered method msg ps = TryOk (WErr e) \<longrightarrow> statusCode e \<noteq> Some 404)"
proof (cases "p_uuid ps")
  case None
  then show ?thesis by (simp add: listFiltered_def)
next
  case (Some uuid)
  show ?thesis
    by (cases "method \<lparr>p_name = None, p_uuid = None, provisionable_by = provisionable_by ps\<rparr>")
       (auto simp: listFiltered_def Some Let_def split: if_splits)
qed

lemma strategies_ok:
  assumes "s \<in> set (strategies napi ps)"
  shows "(s = TryOk (WRes ns) \<longrightarrow> ns \<noteq> []) \<and> (s = TryOk (WErr e) \<longrightarrow> statusCode e \<noteq> Some 404)"
proof -
  from assms consider "s = listNets napi ps" | "s = listFiltNets napi ps"
    | "s = listNetPools napi ps" | "s = listFiltNetPools napi ps"
    by (auto simp: strategies_def)
  then show ?thesis
  proof cases
    case 1 then show ?thesis using listDirect_ok by (simp add: listNets_def)
  next
    case 2 then show ?thesis using listFiltered_ok by (simp add: listFiltNets_def)
  next
    case 3 then show ?thesis using listDirect_ok by (simp add: listNetPools_def)
  next
    case 4 then show ?thesis using listFiltered_ok by (simp add: listFiltNetPools_def)
  qed
qed


text \<open>
  Claim C9, as the specification states it: the result is that of the first search with a
  non-empty match list, and an error is returned only when all searches failed with real
  errors. On the code, a real error of the network listing is returned although the pool
  listing has a match.
\<close>

theorem C9_search_counterexample:
  "listNets napiNetsDown byWeb = TryOk (WErr e500)
   \<and> listNetPools napiNetsDown byWeb = TryOk (WRes [netWeb])
   \<and> getNetworksOrPools napiNetsDown byWeb = Callback (Inl e500)
   \<and> getNetworksOrPools napiNetsDown byWeb \<noteq> Callback (Inr [netWeb])"
  by (simp add: getNetworksOrPools_def listNets_def listNetPools_def listDirect_def
      napiNetsDown_def napiProvision_def byWeb_def truthy_def e500_def)


text \<open>
  Claim C9, amended: \<open>getNetworksOrPools\<close> returns the outcome of the first search, in the
  fixed order, that did not degrade to "not found": its match list, which is not empty,
  with no error, or the real (non-404) error it failed with, and the later searches are
  not consulted; it returns an error in that case only; when every search degraded to
  "not found" it returns an empty array and no error.
\<close>

theorem C9_first_decisive:
  assumes "truthy (p_name ps) \<or> truthy (p_uuid ps)"
  shows "(\<forall>pre s post. strategies napi ps = pre @ s # post \<and> (\<forall>x\<in>set pre. degraded x) \<longrightarrow>
            (\<forall>ns. s = TryOk (WRes ns) \<longrightarrow>
               ns \<noteq> [] \<and> getNetworksOrPools napi ps = Callback (Inr ns))
            \<and> (\<forall>e. s = TryOk (WErr e) \<longrightarrow>
               statusCode e \<noteq> Some 404 \<and> getNetworksOrPools napi ps = Callback (Inl e)))
     \<and> ((\<forall>x\<in>set (strategies napi ps). degraded x) \<longrightarrow>
          getNetworksOrPools napi ps = Callback (Inr []))
     \<and> (\<forall>e. getNetworksOrPools napi ps = Callback (Inl e) \<longrightarrow>
          (\<exists>pre post. strategies napi ps = pre @ TryOk (WErr e) # post
             \<and> (\<forall>x\<in>set pre. degraded x)))"
proof (intro conjI allI impI)
  fix pre s post ns
  assume a: "strategies napi ps = pre @ s # post \<and> (\<forall>x\<in>set pre. degraded x)"
    and s: "s = TryOk (WRes ns)"
  from a have "s \<in> set (strategies napi ps)" by simp
  from strategies_ok[OF this] s show "ns \<noteq> []" by simp
  from a have "strategies napi ps @ [final] = pre @ s # (post @ [final])" by simp
  from getNetworksOrPools_tryEach[OF assms this] a s
  show "getNetworksOrPools napi ps = Callback (Inr ns)" by (simp add: degraded_def)
next
  fix pre s post e
  assume a: "strategies napi ps = pre @ s # post \<and> (\<forall>x\<in>set pre. degraded x)"
    and s: "s = TryOk (WErr e)"
  from a have "s \<in> set (strategies napi ps)" by simp
  from strategies_ok[OF this] s show "statusCode e \<noteq> Some 404" by simp
  from a have "strategies napi ps @ [final] = pre @ s # (post @ [final])" by simp
  from getNetworksOrPools_tryEach[OF assms this] a s
  show "getNetworksOrPools napi ps = Callback (Inl e)" by (simp add: degraded_def)
next
  assume a: "\<forall>x\<in>set (strategies napi ps). degraded x"
  have "strategies napi ps @ [final] = strategies napi ps @ final # []" by simp
  from getNetworksOrPools_tryEach[OF assms this a]
  show "getNetworksOrPools napi ps = Callback (Inr [])" by (simp add: degraded_def final_def)
next
  fix e
  assume r: "getNetworksOrPools napi ps = Callback (Inl e)"
  show "\<exists>pre post. strategies napi ps = pre @ TryOk (WErr e) # post \<and> (\<forall>x\<in>set pre. degraded x)"
  proof (cases "\<forall>x\<in>set (strategies napi ps). degraded x")
    case True
    have "strategies napi ps @ [final] = strategies napi ps @ final # []" by simp
    from getNetworksOrPools_tryEach[OF assms this True] r show ?thesis
      by (simp add: degraded_def final_def)
  next
    case False
    then have "\<exists>x\<in>set (strategies napi ps). \<not> degraded x" by simp
    from split_list_first_prop[OF this] obtain pre s post where
      sp: "strategies napi ps = pre @ s # post" "\<not> degraded s" "\<forall>x\<in>set pre. degraded x"
      by auto
    from sp(1) have "strategies napi ps @ [final] = pre @ s # (post @ [final])" by simp
    from getNetworksOrPools_tryEach[OF assms this sp(3,2)] r have "s = TryOk (WErr e)"
      by (auto split: try_cb.splits wrapped.splits)
    with sp show ?thesis by blast
  qed
qed


text \<open>
  Witness for C9: the network listing is empty, the name cannot be searched by prefix, and
  the pool listing has the match, which is returned.
\<close>

lemma strategies_napiPoolOnly:
  "strategies napiPoolOnly byWeb =
     [TryFail ''Empty List'', TryFail ''Net name not found''] @ TryOk (WRes [netWeb])
       # [TryFail ''Net name not found'']"
  by (simp add: strategies_def listNets_def listFiltNets_def listNetPools_def
      listFiltNetPools_def listDirect_def listFiltered_def napiPoolOnly_def napiProvision_def
      byWeb_def truthy_def)

theorem C9_first_decisive_witness:
  "(truthy (p_name byWeb) \<or> truthy (p_uuid byWeb))
   \<and> strategies napiPoolOnly byWeb =
       [TryFail ''Empty List'', TryFail ''Net name not found''] @ TryOk (WRes [netWeb])
         # [TryFail ''Net name not found'']
   \<and> degraded (TryFail ''Empty List'') \<and> degraded (TryFail ''Net name not found'')
   \<and> getNetworksOrPools napiPoolOnly byWeb = Callback (Inr [netWeb])"
proof -
  have t: "truthy (p_name byWeb) \<or> truthy (p_uuid byWeb)"
    by (simp add: byWeb_def truthy_def)
  have d: "\<forall>x\<in>set [TryFail ''Empty List'', TryFail ''Net name not found'']. degraded x"
    by (simp add: degraded_def)
  from C9_first_decisive[OF t, of napiPoolOnly] strategies_napiPoolOnly d
  have "getNetworksOrPools napiPoolOnly byWeb = Callback (Inr [netWeb])" by blast
  with t strategies_napiPoolOnly d show ?thesis by simp
qed


section \<open>The resolver\<close>

text \<open>Once the reduction holds an error or a result, it keeps it.\<close>

lemma bestMatch_done:
  "acc_err a \<noteq> None \<or> acc_result a \<noteq> None \<Longrightarrow> foldl (bestMatchStep name) a ops = a"
  by (induction ops) (auto simp: bestMatchStep_def)

lemma resolve_first_error:
  "resolve name (\<lparr>op_err = Some e, op_result = rs\<rparr> # ops) =
     (Inl e, [(Err, ''Networks: Error finding network to match %s'', Some e)])"
proof -
  let ?a = "\<lparr>acc_err = Some e, acc_result = None\<rparr>"
  have "foldl (bestMatchStep name) \<lparr>acc_err = None, acc_result = None\<rparr>
      (\<lparr>op_err = Some e, op_result = rs\<rparr> # ops) = foldl (bestMatchStep name) ?a ops"
    by (simp add: bestMatchStep_def)
  also have "\<dots> = ?a" by (rule bestMatch_done) simp
  finally show ?thesis by (simp add: resolve_def listedNetworks_def)
qed

lemma resolve_first_ambiguous:
  assumes "length rs \<ge> 2"
  shows "resolve name (\<lparr>op_err = None, op_result = rs\<rparr> # ops) =
     (Inl (AmbiguousDockerNetworkIdPrefixError name),
      [(Err, ''Networks: Error finding network to match %s'',
        Some (AmbiguousDockerNetworkIdPrefixError name))])"
proof -
  from assms obtain x y zs where rs: "rs = x # y # zs"
    by (cases rs; cases "tl rs") auto
  let ?a = "\<lparr>acc_err = Some (AmbiguousDockerNetworkIdPrefixError name), acc_result = None\<rparr>"
  have "foldl (bestMatchStep name) \<lparr>acc_err = None, acc_result = None\<rparr>
      (\<lparr>op_err = None, op_result = rs\<rparr> # ops) = foldl (bestMatchStep name) ?a ops"
    by (simp add: bestMatchStep_def rs)
  also have "\<dots> = ?a" by (rule bestMatch_done) simp
  finally show ?thesis by (simp add: resolve_def listedNetworks_def)
qed

lemma resolve_second_match:
  "resolve name [\<lparr>op_err = None, op_result = []\<rparr>, \<lparr>op_err = None, op_result = [net]\<rparr>,
                 \<lparr>op_err = Some e3, op_result = rs\<rparr>] =
     (Inr net, [(Warn, ''Networks: non-critical error searching NAPI'', Some (MultiError [e3])),
                (Debug, ''Networks: chose %s/%s'', None)])"
  by (simp add: resolve_def listedNetworks_def bestMatchStep_def parallel_err_def
      List.map_filter_simps)

lemma find_callbacks:
  assumes "fst (byExactId utils napi name account) = Callback r1"
    and "fst (byName napi name account) = Callback r2"
    and "fst (byDockerId utils napi name account) = Callback r3"
  shows "findNetworkOrPoolByNameOrId utils napi name account =
     (Callback (fst (resolve name [to_op r1, to_op r2, to_op r3])),
      snd (byExactId utils napi name account) @ snd (byName napi name account)
        @ snd (byDockerId utils napi name account)
        @ snd (resolve name [to_op r1, to_op r2, to_op r3]))"
  by (simp add: findNetworkOrPoolByNameOrId_def assms split_beta)

lemma napiIdDown_id64:
  "fst (byExactId utilsExample napiIdDown id64 ''acct'') = Callback (Inl e500)
   \<and> fst (byName napiIdDown id64 ''acct'') = Callback (Inr [netWeb])
   \<and> fst (byDockerId utilsExample napiIdDown id64 ''acct'') = Callback (Inr [])"
  by (simp add: byExactId_def byName_def byDockerId_def id64_def getNetworksOrPools_def
      listNets_def listDirect_def napiIdDown_def napiProvision_def utilsExample_def truthy_def
      e500_def)

lemma napiIdDown_web:
  "fst (byExactId utilsExample napiIdDown ''web'' ''acct'') = Callback (Inr [])
   \<and> fst (byName napiIdDown ''web'' ''acct'') = Callback (Inr [netWeb])
   \<and> fst (byDockerId utilsExample napiIdDown ''web'' ''acct'') = Callback (Inl e500)"
  by (simp add: byExactId_def byName_def byDockerId_def getNetworksOrPools_def
      listNets_def listDirect_def napiIdDown_def napiProvision_def utilsExample_def truthy_def
      e500_def)


text \<open>
  Claim C1, as the specification states it: when the exact-id search ends with an error
  and the exact-name search with one match, the resolver returns the match. On the code
  it returns the error of the exact-id search.
\<close>

theorem C1_preference_counterexample:
  "fst (byExactId utilsExample napiIdDown id64 ''acct'') = Callback (Inl e500)
   \<and> fst (byName napiIdDown id64 ''acct'') = Callback (Inr [netWeb])
   \<and> fst (findNetworkOrPoolByNameOrId utilsExample napiIdDown id64 ''acct'')
       = Callback (Inl (NapiError e500))
   \<and> fst (findNetworkOrPoolByNameOrId utilsExample napiIdDown id64 ''acct'')
       \<noteq> Callback (Inr netWeb)"
proof -
  have "findNetworkOrPoolByNameOrId utilsExample napiIdDown id64 ''acct'' =
     (Callback (fst (resolve id64 [to_op (Inl e500), to_op (Inr [netWeb]), to_op (Inr [])])),
      snd (byExactId utilsExample napiIdDown id64 ''acct'') @ snd (byName napiIdDown id64 ''acct'')
        @ snd (byDockerId utilsExample napiIdDown id64 ''acct'')
        @ snd (resolve id64 [to_op (Inl e500), to_op (Inr [netWeb]), to_op (Inr [])]))"
    using napiIdDown_id64 by (intro find_callbacks) simp_all
  then have "fst (findNetworkOrPoolByNameOrId utilsExample napiIdDown id64 ''acct'')
       = Callback (Inl (NapiError e500))"
    by (simp add: to_op_def resolve_first_error)
  with napiIdDown_id64 show ?thesis by simp
qed


text \<open>
  Claim C1, amended: when the exact-id search (strategy 1) ends with an error, the resolver
  returns that error to its caller and logs it, whatever the other two searches found.
  The single match of the exact-name search (strategy 2) is returned, and an error only
  logged as a warning, when the error is that of the partial-id search (strategy 3) and
  the exact-id search found nothing.
\<close>

theorem C1_preference_order:
  "(fst (byExactId utils napi name account) = Callback (Inl e1)
      \<and> fst (byName napi name account) = Callback r2
      \<and> fst (byDockerId utils napi name account) = Callback r3
    \<longrightarrow> fst (findNetworkOrPoolByNameOrId utils napi name account) = Callback (Inl (NapiError e1))
      \<and> (Err, ''Networks: Error finding network to match %s'', Some (NapiError e1))
          \<in> set (snd (findNetworkOrPoolByNameOrId utils napi name account)))
   \<and> (fst (byExactId utils napi name account) = Callback (Inr [])
      \<and> fst (byName napi name account) = Callback (Inr [net])
      \<and> fst (byDockerId utils napi name account) = Callback (Inl e3)
    \<longrightarrow> fst (findNetworkOrPoolByNameOrId utils napi name account) = Callback (Inr net)
      \<and> (Warn, ''Networks: non-critical error searching NAPI'', Some (MultiError [NapiError e3]))
          \<in> set (snd (findNetworkOrPoolByNameOrId utils napi name account)))"
proof (intro conjI impI)
  assume a: "fst (byExactId utils napi name account) = Callback (Inl e1)
      \<and> fst (byName napi name account) = Callback r2
      \<and> fst (byDockerId utils napi name account) = Callback r3"
  then have f: "findNetworkOrPoolByNameOrId utils napi name account =
     (Callback (fst (resolve name [to_op (Inl e1), to_op r2, to_op r3])),
      snd (byExactId utils napi name account) @ snd (byName napi name account)
        @ snd (byDockerId utils napi name account)
        @ snd (resolve name [to_op (Inl e1), to_op r2, to_op r3]))"
    by (intro find_callbacks) simp_all
  have r: "resolve name [to_op (Inl e1), to_op r2, to_op r3] =
     (Inl (NapiError e1),
      [(Err, ''Networks: Error finding network to match %s'', Some (NapiError e1))])"
    by (simp add: to_op_def resolve_first_error)
  show "fst (findNetworkOrPoolByNameOrId utils napi name account) = Callback (Inl (NapiError e1))"
    by (simp add: f r)
  show "(Err, ''Networks: Error finding network to match %s'', Some (NapiError e1))
          \<in> set (snd (findNetworkOrPoolByNameOrId utils napi name account))"
    by (simp add: f r)
next
  assume a: "fst (byExactId utils napi name account) = Callback (Inr [])
      \<and> fst (byName napi name account) = Callback (Inr [net])
      \<and> fst (byDockerId utils napi name account) = Callback (Inl e3)"
  then have f: "findNetworkOrPoolByNameOrId utils napi name account =
     (Callback (fst (resolve name [to_op (Inr []), to_op (Inr [net]), to_op (Inl e3)])),
      snd (byExactId utils napi name account) @ snd (byName napi name account)
        @ snd (byDockerId utils napi name account)
        @ snd (resolve name [to_op (Inr []), to_op (Inr [net]), to_op (Inl e3)]))"
    by (intro find_callbacks) simp_all
  have r: "resolve name [to_op (Inr []), to_op (Inr [net]), to_op (Inl e3)] =
     (Inr net,
      [(Warn, ''Networks: non-critical error searching NAPI'', Some (MultiError [NapiError e3])),
       (Debug, ''Networks: chose %s/%s'', None)])"
    by (simp add: to_op_def resolve_second_match)
  show "fst (findNetworkOrPoolByNameOrId utils napi name account) = Callback (Inr net)"
    by (simp add: f r)
  show "(Warn, ''Networks: non-critical error searching NAPI'', Some (MultiError [NapiError e3]))
          \<in> set (snd (findNetworkOrPoolByNameOrId utils napi name account))"
    by (simp add: f r)
qed


text \<open>
  Witness for C1: with the same service, the full id meets the error of the search by
  uuid, and the name \<open>web\<close> resolves to its network although the partial-id search fails.
\<close>

theorem C1_preference_order_witness:
  "fst (byExactId utilsExample napiIdDown id64 ''acct'') = Callback (Inl e500)
   \<and> fst (byName napiIdDown id64 ''acct'') = Callback (Inr [netWeb])
   \<and> fst (byDockerId utilsExample napiIdDown id64 ''acct'') = Callback (Inr [])
   \<and> fst (findNetworkOrPoolByNameOrId utilsExample napiIdDown id64 ''acct'')
       = Callback (Inl (NapiError e500))
   \<and> fst (byExactId utilsExample napiIdDown ''web'' ''acct'') = Callback (Inr [])
   \<and> fst (byName napiIdDown ''web'' ''acct'') = Callback (Inr [netWeb])
   \<and> fst (byDockerId utilsExample napiIdDown ''web'' ''acct'') = Callback (Inl e500)
   \<and> fst (findNetworkOrPoolByNameOrId utilsExample napiIdDown ''web'' ''acct'')
       = Callback (Inr netWeb)"
  using C1_preference_order[of utilsExample napiIdDown id64 "''acct''" e500 "Inr [netWeb]" "Inr []"
      netWeb e500]
    C1_preference_order[of utilsExample napiIdDown "''web''" "''acct''" e500 "Inr [netWeb]" "Inr []"
      netWeb e500]
    napiIdDown_id64 napiIdDown_web
  by simp


text \<open>
  Claim C7: when the exact-id search returns two matches or more, the resolver fails with
  the ambiguous-identifier error that carries the identifier, whatever the exact-name
  search and the partial-id search returned.
\<close>

theorem C7_ambiguous_exact_id:
  assumes "fst (byExactId utils napi name account) = Callback (Inr rs)" and "length rs \<ge> 2"
    and "fst (byName napi name account) = Callback r2"
    and "fst (byDockerId utils napi name account) = Callback r3"
  shows "fst (findNetworkOrPoolByNameOrId utils napi name account)
     = Callback (Inl (AmbiguousDockerNetworkIdPrefixError name))"
  by (simp add: find_callbacks[OF assms(1,3,4)] to_op_def resolve_first_ambiguous[OF assms(2)])


text \<open>
  Witness for C7: the search by uuid returns two networks and the search by name one; the
  resolver fails with the ambiguity.
\<close>

theorem C7_ambiguous_exact_id_witness:
  "fst (byExactId utilsExample napiTwoIds id64 ''acct'') = Callback (Inr [netA, netB])
   \<and> fst (byName napiTwoIds id64 ''acct'') = Callback (Inr [netWeb])
   \<and> fst (byDockerId utilsExample napiTwoIds id64 ''acct'') = Callback (Inr [])
   \<and> fst (findNetworkOrPoolByNameOrId utilsExample napiTwoIds id64 ''acct'')
       = Callback (Inl (AmbiguousDockerNetworkIdPrefixError id64))"
proof -
  have a: "fst (byExactId utilsExample napiTwoIds id64 ''acct'') = Callback (Inr [netA, netB])"
    by (simp add: byExactId_def id64_def getNetworksOrPools_def listNets_def listDirect_def
        napiTwoIds_def napiProvision_def utilsExample_def truthy_def)
  have b: "fst (byName napiTwoIds id64 ''acct'') = Callback (Inr [netWeb])"
    by (simp add: byName_def id64_def getNetworksOrPools_def listNets_def listDirect_def
        napiTwoIds_def napiProvision_def truthy_def)
  have c: "fst (byDockerId utilsExample napiTwoIds id64 ''acct'') = Callback (Inr [])"
    by (simp add: byDockerId_def id64_def)
  have n: "length [netA, netB] \<ge> 2" by simp
  from C7_ambiguous_exact_id[OF a n b c] a b c show ?thesis by simp
qed

end
